theory Spec2Isabelle
  imports Complex_Main
begin

section \<open>Data model of the Pong game (src/main.c)\<close>

text \<open>
  The program is a single C file.  Every C \<^verbatim>\<open>float\<close> is modelled as a real number:
  the arithmetic below is the exact arithmetic that the C expressions denote, and
  rounding is not modelled.  C \<^verbatim>\<open>int\<close> values (scores, particle counts, random draws)
  are modelled as unbounded integers; the scores and the particle cursor stay far from the limits of
  a machine integer.  Opaque resource handles of the windowing library (font,
  sounds) carry no game logic and are left out of the state.
\<close>

subsection \<open>Constants (the preprocessor definitions at the top of main.c)\<close>

definition SCREEN_WIDTH :: int where "SCREEN_WIDTH = 1280"
definition SCREEN_HEIGHT :: int where "SCREEN_HEIGHT = 800"
definition PADDLE_WIDTH :: int where "PADDLE_WIDTH = 25"
definition PADDLE_HEIGHT :: int where "PADDLE_HEIGHT = 200"
definition BALL_RADIUS :: int where "BALL_RADIUS = 20"
definition BALL_INITIAL_SPEED :: real where "BALL_INITIAL_SPEED = 8"
definition PADDLE_SPEED :: real where "PADDLE_SPEED = 12"
definition MAX_BALL_SPEED :: real where "MAX_BALL_SPEED = 15"
definition SPEED_INCREMENT :: real where "SPEED_INCREMENT = 2 / 10"
definition WALL_BOUNCE_BUFFER :: real where "WALL_BOUNCE_BUFFER = 2"
definition MAX_PARTICLES :: int where "MAX_PARTICLES = 100"

subsection \<open>Types\<close>

datatype GameState =
  STATE_SPLASH | STATE_MODE_SELECT | STATE_PLAYING | STATE_PAUSED | STATE_GAME_OVER

datatype GameMode = MODE_AI | MODE_MULTIPLAYER

text \<open>A colour is four bytes: red, green, blue, alpha.\<close>

datatype Color = Color nat nat nat nat

definition COLOR_PLAYER_ONE :: Color where "COLOR_PLAYER_ONE = Color 0 180 255 255"
definition COLOR_PLAYER_TWO :: Color where "COLOR_PLAYER_TWO = Color 0 220 120 255"
definition COLOR_AI :: Color where "COLOR_AI = Color 255 100 100 255"
definition COLOR_BALL :: Color where "COLOR_BALL = Color 255 255 255 255"
definition WHITE :: Color where "WHITE = Color 255 255 255 255"

record Vector2 =
  vec_x :: real
  vec_y :: real

record Rectangle =
  rec_x :: real
  rec_y :: real
  rec_width :: real
  rec_height :: real

record Ball =
  position :: Vector2
  velocity :: Vector2
  radius :: real
  color :: Color

record Paddle =
  rect :: Rectangle
  speed :: real
  paddle_color :: Color

record Particle =
  p_position :: Vector2
  p_velocity :: Vector2
  lifeTime :: real
  maxLifeTime :: real
  p_color :: Color
  p_size :: real

text \<open>
  The \<^verbatim>\<open>Game\<close> struct.  The particle array has \<^verbatim>\<open>MAX_PARTICLES\<close> slots in C; it is a
  list here, written by index.
\<close>

record Game =
  state :: GameState
  mode :: GameMode
  ball :: Ball
  playerPaddle :: Paddle
  aiPaddle :: Paddle
  playerScore :: int
  aiScore :: int
  winScore :: int
  fullscreen :: bool
  ballSpeedMultiplier :: real
  scoreAnimScale :: real
  lastScoreTime :: real
  screenShake :: real
  shakeOffset :: Vector2
  particles :: "Particle list"
  activeParticles :: int

subsection \<open>What one frame reads from outside the program\<close>

text \<open>
  The window library answers the keyboard, mouse, clock and random-number queries.
  One value of \<open>Input\<close> holds the answers that the calls of one frame receive.  The raw
  random numbers are arbitrary integers; \<open>GetRandomValue\<close> below maps a raw number into
  the requested interval.  \<open>rand_shake_x\<close> and \<open>rand_shake_y\<close> are the raw numbers for the
  screen shake in \<^verbatim>\<open>DrawGame\<close>.  \<open>rand_particles inp site k\<close> is the raw number behind the
  \<open>k\<close>-th draw of the \<open>site\<close>-th particle burst of the frame (0: player-paddle hit,
  1: second-paddle hit, 2: serve).
\<close>

record Input =
  key_P_pressed :: bool
  key_W_down :: bool
  key_S_down :: bool
  key_UP_down :: bool
  key_DOWN_down :: bool
  key_R_pressed :: bool
  key_M_pressed :: bool
  key_ONE_pressed :: bool
  key_KP_1_pressed :: bool
  key_TWO_pressed :: bool
  key_KP_2_pressed :: bool
  key_SPACE_pressed :: bool
  key_F_pressed :: bool
  mouse_left_down :: bool
  mouse_left_pressed :: bool
  mousePosition :: Vector2
  currentTime :: real
  frameTime :: real
  rand_ai_chance :: int
  rand_ai_error :: int
  rand_serve :: int
  rand_shake_x :: int
  rand_shake_y :: int
  rand_particles :: "nat \<Rightarrow> nat \<Rightarrow> int"

subsection \<open>Library helpers used by the game logic\<close>

text \<open>
  The game calls a few functions of the raylib and raymath libraries.  Only their
  declarations (include/raylib.h, include/raymath.h) belong to the repository; the
  definitions below follow the libraries' documented behaviour.
\<close>

text \<open>
  Modelled from the spec: \<^verbatim>\<open>Clamp(value, min, max)\<close> of raymath, not part of src/.  The
  spec says that positions are clamped to bounds; the library takes \<open>min\<close> for a value
  below \<open>min\<close> and then \<open>max\<close> for a result above \<open>max\<close>.
\<close>

definition Clamp :: "real \<Rightarrow> real \<Rightarrow> real \<Rightarrow> real" where
  "Clamp v lo hi =
     (let result = (if v < lo then lo else v)
      in if result > hi then hi else result)"

text \<open>
  Modelled from the spec: \<^verbatim>\<open>CheckCollisionPointRec\<close> of raylib, not part of src/; the
  point-in-rectangle test among the spec's geometry primitives.
\<close>

definition CheckCollisionPointRec :: "Vector2 \<Rightarrow> Rectangle \<Rightarrow> bool" where
  "CheckCollisionPointRec point rec \<longleftrightarrow>
     vec_x point \<ge> rec_x rec \<and> vec_x point < rec_x rec + rec_width rec \<and>
     vec_y point \<ge> rec_y rec \<and> vec_y point < rec_y rec + rec_height rec"

text \<open>
  Modelled from the spec: \<^verbatim>\<open>CheckCollisionCircleRec\<close> of raylib, not part of src/; the
  circle-rectangle intersection test among the spec's geometry primitives.
\<close>

definition CheckCollisionCircleRec :: "Vector2 \<Rightarrow> real \<Rightarrow> Rectangle \<Rightarrow> bool" where
  "CheckCollisionCircleRec center r rec =
     (let recCenterX = rec_x rec + rec_width rec / 2;
          recCenterY = rec_y rec + rec_height rec / 2;
          dx = \<bar>vec_x center - recCenterX\<bar>;
          dy = \<bar>vec_y center - recCenterY\<bar>
      in if dx > rec_width rec / 2 + r then False
         else if dy > rec_height rec / 2 + r then False
         else if dx \<le> rec_width rec / 2 then True
         else if dy \<le> rec_height rec / 2 then True
         else (dx - rec_width rec / 2) * (dx - rec_width rec / 2) +
              (dy - rec_height rec / 2) * (dy - rec_height rec / 2) \<le> r * r)"

text \<open>The C cast from float to int truncates toward zero.\<close>

definition c_trunc :: "real \<Rightarrow> int" where
  "c_trunc v = (if 0 \<le> v then \<lfloor>v\<rfloor> else \<lceil>v\<rceil>)"

text \<open>\<^verbatim>\<open>roundf\<close> of the C library rounds to the nearest integer, halves away from zero.\<close>

definition roundf :: "real \<Rightarrow> real" where
  "roundf v = (if 0 \<le> v then of_int \<lfloor>v + 1 / 2\<rfloor> else of_int \<lceil>v - 1 / 2\<rceil>)"

text \<open>
  Modelled from the spec: \<^verbatim>\<open>ColorAlpha\<close> of raylib, not part of src/; it replaces the alpha
  byte of a colour by 255 times the given alpha, which is first limited to [0, 1].
\<close>

definition ColorAlpha :: "Color \<Rightarrow> real \<Rightarrow> Color" where
  "ColorAlpha c alpha =
     (case c of Color r g b a \<Rightarrow>
        Color r g b (nat (c_trunc (255 * (if alpha < 0 then 0 else if alpha > 1 then 1 else alpha)))))"

text \<open>
  Modelled from the spec: \<^verbatim>\<open>GetRandomValue(min, max)\<close> of raylib, not part of src/; the
  spec's random source, sampling an integer in [min, max].  The third argument is the raw
  number that the generator produces for the call.
\<close>

definition GetRandomValue :: "int \<Rightarrow> int \<Rightarrow> int \<Rightarrow> int" where
  "GetRandomValue lo hi raw = lo + raw mod (hi - lo + 1)"

section \<open>Particle subsystem\<close>

text \<open>
  The program keeps \<open>0 \<le> activeParticles \<le> MAX_PARTICLES\<close> (shown below), so every index
  used by the two loops is inside the array.  Outside that range the C code would index
  out of bounds; the list operations of the model do not describe that case.
\<close>

text \<open>
  \<^verbatim>\<open>CreateParticleEffect\<close> (main.c 1035-1049): the \<^verbatim>\<open>for\<close> loop runs while
  \<^verbatim>\<open>i < count && game->activeParticles < MAX_PARTICLES\<close>.  Iteration \<open>i\<close> makes four
  random draws, in the order velocity x, velocity y, maximum life time, size.
\<close>

function CreateParticleEffect_loop ::
  "(nat \<Rightarrow> int) \<Rightarrow> Vector2 \<Rightarrow> Color \<Rightarrow> int \<Rightarrow> int \<Rightarrow> Game \<Rightarrow> Game" where
  "CreateParticleEffect_loop draws pos col count i g =
     (if i < count \<and> activeParticles g < MAX_PARTICLES then
        let particleIndex = activeParticles g;
            p = \<lparr> p_position = pos,
                  p_velocity = \<lparr> vec_x = of_int (GetRandomValue (-200) 200 (draws (4 * nat i))) / 100,
                                 vec_y = of_int (GetRandomValue (-200) 200 (draws (4 * nat i + 1))) / 100 \<rparr>,
                  lifeTime = 0,
                  maxLifeTime = of_int (GetRandomValue 30 90 (draws (4 * nat i + 2))) / 100,
                  p_color = col,
                  p_size = of_int (GetRandomValue 2 6 (draws (4 * nat i + 3))) \<rparr>
        in CreateParticleEffect_loop draws pos col count (i + 1)
             (g\<lparr> particles := (particles g)[nat particleIndex := p],
                 activeParticles := activeParticles g + 1 \<rparr>)
      else g)"
  by pat_completeness auto
termination
  by (relation "measure (\<lambda>(draws, pos, col, count, i, g). nat (count - i))") auto

declare CreateParticleEffect_loop.simps [simp del]

definition CreateParticleEffect ::
  "(nat \<Rightarrow> int) \<Rightarrow> Game \<Rightarrow> Vector2 \<Rightarrow> Color \<Rightarrow> int \<Rightarrow> Game" where
  "CreateParticleEffect draws g pos col count = CreateParticleEffect_loop draws pos col count 0 g"

text \<open>
  \<^verbatim>\<open>UpdateAndDrawParticles\<close> (main.c 1052-1085), without the drawing call.  The loop
  ages particle \<open>i\<close> in place, skips it when it has expired, and otherwise moves it and
  copies it down to slot \<open>particlesToKeep\<close>.  The loop state is the index \<open>i\<close>, the
  counter \<open>particlesToKeep\<close> and the array; \<^verbatim>\<open>game->activeParticles\<close> is written after
  the loop.
\<close>

function UpdateAndDrawParticles_loop ::
  "real \<Rightarrow> int \<Rightarrow> int \<Rightarrow> int \<Rightarrow> Particle list \<Rightarrow> int \<times> Particle list" where
  "UpdateAndDrawParticles_loop deltaTime active i particlesToKeep ps =
     (if i < active then
        let p = ps ! nat i;
            p1 = p\<lparr> lifeTime := lifeTime p + deltaTime \<rparr>;
            ps1 = ps[nat i := p1]
        in if lifeTime p1 \<ge> maxLifeTime p1 then
             UpdateAndDrawParticles_loop deltaTime active (i + 1) particlesToKeep ps1
           else
             let p2 = p1\<lparr> p_position :=
                          \<lparr> vec_x = vec_x (p_position p1) + vec_x (p_velocity p1),
                            vec_y = vec_y (p_position p1) + vec_y (p_velocity p1) \<rparr> \<rparr>;
                 ps2 = ps1[nat i := p2];
                 ps3 = (if i \<noteq> particlesToKeep then ps2[nat particlesToKeep := p2] else ps2)
             in UpdateAndDrawParticles_loop deltaTime active (i + 1) (particlesToKeep + 1) ps3
      else (particlesToKeep, ps))"
  by pat_completeness auto
termination
  by (relation "measure (\<lambda>(deltaTime, active, i, particlesToKeep, ps). nat (active - i))") auto

declare UpdateAndDrawParticles_loop.simps [simp del]

definition UpdateAndDrawParticles :: "Input \<Rightarrow> Game \<Rightarrow> Game" where
  "UpdateAndDrawParticles inp g =
     (let (particlesToKeep, ps) =
            UpdateAndDrawParticles_loop (frameTime inp) (activeParticles g) 0 0 (particles g)
      in g\<lparr> particles := ps, activeParticles := particlesToKeep \<rparr>)"

section \<open>Serving and match initialisation\<close>

text \<open>\<^verbatim>\<open>ResetBall\<close> (main.c 1241-1264).\<close>

definition ResetBall :: "Input \<Rightarrow> Game \<Rightarrow> bool \<Rightarrow> Game" where
  "ResetBall inp g serverIsPlayer =
     (let g1 = g\<lparr> ball := (ball g)\<lparr> position :=
                   \<lparr> vec_x = of_int (SCREEN_WIDTH div 2), vec_y = of_int (SCREEN_HEIGHT div 2) \<rparr> \<rparr> \<rparr>;
          initialSpeed = BALL_INITIAL_SPEED * ballSpeedMultiplier g1;
          g2 = g1\<lparr> ball := (ball g1)\<lparr> velocity :=
                   \<lparr> vec_x = (if serverIsPlayer then initialSpeed else - initialSpeed),
                     vec_y = of_int (GetRandomValue (-100) 100 (rand_serve inp)) / 100 * initialSpeed \<rparr> \<rparr> \<rparr>;
          g3 = g2\<lparr> lastScoreTime := currentTime inp, scoreAnimScale := 15 / 10 \<rparr>;
          particleColor = (if serverIsPlayer then paddle_color (aiPaddle g3)
                           else paddle_color (playerPaddle g3))
      in CreateParticleEffect (rand_particles inp 2) g3 (position (ball g3)) particleColor 30)"

text \<open>\<^verbatim>\<open>InitGame\<close> (main.c 643-688).\<close>

definition InitGame :: "Input \<Rightarrow> Game \<Rightarrow> GameMode \<Rightarrow> Game" where
  "InitGame inp g m =
     (let g1 = g\<lparr> mode := m, state := STATE_PLAYING, playerScore := 0, aiScore := 0,
                 winScore := 10 \<rparr>;
          g2 = g1\<lparr> ball := (ball g1)\<lparr> radius := of_int BALL_RADIUS, color := COLOR_BALL \<rparr> \<rparr>;
          g3 = g2\<lparr> playerPaddle :=
                   \<lparr> rect = \<lparr> rec_x = 10,
                              rec_y = of_int ((SCREEN_HEIGHT - PADDLE_HEIGHT) div 2),
                              rec_width = of_int PADDLE_WIDTH,
                              rec_height = of_int PADDLE_HEIGHT \<rparr>,
                     speed = PADDLE_SPEED,
                     paddle_color = COLOR_PLAYER_ONE \<rparr> \<rparr>;
          g4 = g3\<lparr> aiPaddle :=
                   \<lparr> rect = \<lparr> rec_x = of_int (SCREEN_WIDTH - 10 - PADDLE_WIDTH),
                              rec_y = of_int ((SCREEN_HEIGHT - PADDLE_HEIGHT) div 2),
                              rec_width = of_int PADDLE_WIDTH,
                              rec_height = of_int PADDLE_HEIGHT \<rparr>,
                     speed = PADDLE_SPEED,
                     paddle_color = (if m = MODE_AI then COLOR_AI else COLOR_PLAYER_TWO) \<rparr> \<rparr>;
          g5 = ResetBall inp g4 True
      in g5\<lparr> activeParticles := 0, scoreAnimScale := 1, lastScoreTime := 0, screenShake := 0,
             shakeOffset := \<lparr> vec_x = 0, vec_y = 0 \<rparr> \<rparr>)"

section \<open>Paddle collision test\<close>

text \<open>
  \<^verbatim>\<open>CheckPaddleCollision\<close> (main.c 1088-1134).  The \<^verbatim>\<open>Game\<close> argument is not used by
  the C function and is dropped.  \<^verbatim>\<open>SCREEN_WIDTH/2\<close> is an integer division.
\<close>

definition CheckPaddleCollision :: "Ball \<Rightarrow> Paddle \<Rightarrow> bool" where
  "CheckPaddleCollision b pd =
     (let paddleRect = (rect pd)\<lparr> rec_x := rec_x (rect pd) - radius b,
                                 rec_width := rec_width (rect pd) + radius b * 2 \<rparr>;
          movingTowardPaddle =
            ((rec_x paddleRect < of_int (SCREEN_WIDTH div 2) \<and> vec_x (velocity b) < 0) \<or>
             (rec_x paddleRect > of_int (SCREEN_WIDTH div 2) \<and> vec_x (velocity b) > 0))
      in if \<not> movingTowardPaddle then False
         else
           let ballPrev = \<lparr> vec_x = vec_x (position b) - vec_x (velocity b),
                            vec_y = vec_y (position b) - vec_y (velocity b) \<rparr>;
               ballDir = \<lparr> vec_x = vec_x (position b) - vec_x ballPrev,
                           vec_y = vec_y (position b) - vec_y ballPrev \<rparr>;
               rayLength = sqrt (vec_x ballDir * vec_x ballDir + vec_y ballDir * vec_y ballDir);
               hitBox = \<lparr> rec_x = rec_x paddleRect - radius b,
                          rec_y = rec_y paddleRect - radius b,
                          rec_width = rec_width paddleRect + radius b * 2,
                          rec_height = rec_height paddleRect + radius b * 2 \<rparr>
           in if rayLength > 0 \<and>
                 (CheckCollisionPointRec (position b) hitBox \<or>
                  CheckCollisionCircleRec (position b) (radius b) paddleRect)
              then True
              else CheckCollisionCircleRec (position b) (radius b) paddleRect)"

section \<open>AI controller\<close>

text \<open>
  A division whose divisor is zero is an error value of the model, so that the guard in
  front of the division in \<^verbatim>\<open>UpdateAI\<close> is visible in the result type.
\<close>

datatype error = DivisionByZero

definition float_div :: "real \<Rightarrow> real \<Rightarrow> error + real" where
  "float_div a b = (if b = 0 then Inl DivisionByZero else Inr (a / b))"

text \<open>
  The expression that main.c 1157-1158 and 1170-1171 assign to \<^verbatim>\<open>bounceDistance\<close>.
  \<^verbatim>\<open>2*SCREEN_HEIGHT\<close> is the integer 1600.
\<close>

definition bounceDistanceOf :: "real \<Rightarrow> real" where
  "bounceDistanceOf predictedY =
     (if predictedY < 0 then - predictedY
      else if predictedY > of_int SCREEN_HEIGHT then of_int (2 * SCREEN_HEIGHT) - predictedY
      else 0)"

text \<open>The \<^verbatim>\<open>while (bounceDistance > 0)\<close> loop (main.c 1160-1172); it returns \<^verbatim>\<open>predictedY\<close>.\<close>

function UpdateAI_bounce_loop :: "real \<Rightarrow> real \<Rightarrow> real" where
  "UpdateAI_bounce_loop bounceDistance predictedY =
     (if bounceDistance > 0 then
        (if predictedY < 0 then
           let p = - predictedY in UpdateAI_bounce_loop (bounceDistanceOf p) p
         else if predictedY > of_int SCREEN_HEIGHT then
           let p = of_int (2 * SCREEN_HEIGHT) - predictedY in UpdateAI_bounce_loop (bounceDistanceOf p) p
         else predictedY)
      else predictedY)"
  by pat_completeness auto
termination
  by (relation "measure (\<lambda>(bd, p).
        if bd = bounceDistanceOf p
        then (if p < 0 then 2 else if p > 800 \<and> p < 1600 then 1 else 0)
        else 3)")
     (auto simp: bounceDistanceOf_def SCREEN_HEIGHT_def split: if_splits)

declare UpdateAI_bounce_loop.simps [simp del]

text \<open>The prediction of the interception height (main.c 1144-1174).\<close>

definition UpdateAI_predict :: "Paddle \<Rightarrow> Ball \<Rightarrow> error + real" where
  "UpdateAI_predict aiPad b =
     (if vec_x (velocity b) > 0 then
        let distanceToIntercept = rec_x (rect aiPad) - vec_x (position b)
        in case float_div distanceToIntercept (vec_x (velocity b)) of
             Inl e \<Rightarrow> Inl e
           | Inr timeToIntercept \<Rightarrow>
               if timeToIntercept > 0 then
                 let predictedY = vec_y (position b) + vec_y (velocity b) * timeToIntercept
                 in Inr (UpdateAI_bounce_loop (bounceDistanceOf predictedY) predictedY)
               else Inr (vec_y (position b))
      else Inr (vec_y (position b)))"

text \<open>The rest of \<^verbatim>\<open>UpdateAI\<close> (main.c 1139-1140 and 1176-1205), given the prediction.\<close>

definition UpdateAI_move :: "Input \<Rightarrow> Paddle \<Rightarrow> Game \<Rightarrow> real \<Rightarrow> Paddle" where
  "UpdateAI_move inp aiPad g predictedY =
     (let difficulty0 = (7 / 10) * (1 + (ballSpeedMultiplier g - 1) * (5 / 10));
          difficulty = Clamp difficulty0 (5 / 10) (95 / 100);
          targetY0 = predictedY - rec_height (rect aiPad) / 2;
          targetY1 = (if GetRandomValue 0 100 (rand_ai_chance inp) < c_trunc (30 * (1 - difficulty))
                      then targetY0 + of_int (GetRandomValue (-30) 30 (rand_ai_error inp)) * (1 - difficulty)
                      else targetY0);
          targetY = Clamp targetY1 0 (of_int SCREEN_HEIGHT - rec_height (rect aiPad));
          distanceToTarget = targetY - rec_y (rect aiPad);
          y1 = (if \<bar>distanceToTarget\<bar> > 1 then
                  let moveStep0 = distanceToTarget * (1 / 10) * difficulty;
                      maxStep = speed aiPad * difficulty;
                      moveStep = (if \<bar>moveStep0\<bar> > maxStep
                                  then maxStep * (if distanceToTarget > 0 then 1 else - 1)
                                  else moveStep0)
                  in rec_y (rect aiPad) + moveStep
                else rec_y (rect aiPad))
      in aiPad\<lparr> rect := (rect aiPad)\<lparr> rec_y :=
                  Clamp y1 0 (of_int SCREEN_HEIGHT - rec_height (rect aiPad)) \<rparr> \<rparr>)"

definition UpdateAI :: "Input \<Rightarrow> Paddle \<Rightarrow> Ball \<Rightarrow> Game \<Rightarrow> error + Paddle" where
  "UpdateAI inp aiPad b g =
     (case UpdateAI_predict aiPad b of
        Inl e \<Rightarrow> Inl e
      | Inr predictedY \<Rightarrow> Inr (UpdateAI_move inp aiPad g predictedY))"

section \<open>The per-frame update\<close>

text \<open>
  \<^verbatim>\<open>UpdateGame\<close> (main.c 690-832).  The \<^verbatim>\<open>STATE_PLAYING\<close> case is a straight
  sequence of blocks; each block is one definition, in source order.
\<close>

text \<open>Player 1 paddle (main.c 699-711).\<close>

definition UpdateGame_player :: "Input \<Rightarrow> Game \<Rightarrow> Game" where
  "UpdateGame_player inp g =
     (let m0 = (0::real);
          m1 = (if key_W_down inp then m0 - speed (playerPaddle g) else m0);
          playerMovement = (if key_S_down inp then m1 + speed (playerPaddle g) else m1);
          y1 = rec_y (rect (playerPaddle g)) + playerMovement
      in g\<lparr> playerPaddle := (playerPaddle g)\<lparr> rect := (rect (playerPaddle g))\<lparr> rec_y :=
               Clamp y1 0 (of_int SCREEN_HEIGHT - rec_height (rect (playerPaddle g))) \<rparr> \<rparr> \<rparr>)"

text \<open>Second paddle: the AI, or player 2 (main.c 713-731).\<close>

definition UpdateGame_second :: "Input \<Rightarrow> Game \<Rightarrow> error + Game" where
  "UpdateGame_second inp g =
     (if mode g = MODE_AI then
        (case UpdateAI inp (aiPaddle g) (ball g) g of
           Inl e \<Rightarrow> Inl e
         | Inr pd \<Rightarrow> Inr (g\<lparr> aiPaddle := pd \<rparr>))
      else
        let m0 = (0::real);
            m1 = (if key_UP_down inp then m0 - speed (aiPaddle g) else m0);
            player2Movement = (if key_DOWN_down inp then m1 + speed (aiPaddle g) else m1);
            y1 = rec_y (rect (aiPaddle g)) + player2Movement
        in Inr (g\<lparr> aiPaddle := (aiPaddle g)\<lparr> rect := (rect (aiPaddle g))\<lparr> rec_y :=
                   Clamp y1 0 (of_int SCREEN_HEIGHT - rec_height (rect (aiPaddle g))) \<rparr> \<rparr> \<rparr>))"

text \<open>Ball integration (main.c 733-735).\<close>

definition UpdateGame_move_ball :: "Game \<Rightarrow> Game" where
  "UpdateGame_move_ball g =
     g\<lparr> ball := (ball g)\<lparr> position :=
          \<lparr> vec_x = vec_x (position (ball g)) + vec_x (velocity (ball g)),
            vec_y = vec_y (position (ball g)) + vec_y (velocity (ball g)) \<rparr> \<rparr> \<rparr>"

text \<open>Top and bottom walls (main.c 737-750).\<close>

definition UpdateGame_walls :: "Game \<Rightarrow> Game" where
  "UpdateGame_walls g =
     (let b = ball g in
      if vec_y (position b) - radius b \<le> 0 \<or>
         vec_y (position b) + radius b \<ge> of_int SCREEN_HEIGHT
      then
        let b1 = b\<lparr> velocity := (velocity b)\<lparr> vec_y := vec_y (velocity b) * (- 1) \<rparr> \<rparr>;
            b2 = (if vec_y (position b1) < radius b1
                  then b1\<lparr> position := (position b1)\<lparr> vec_y := radius b1 + WALL_BOUNCE_BUFFER \<rparr> \<rparr>
                  else b1);
            b3 = (if vec_y (position b2) > of_int SCREEN_HEIGHT - radius b2
                  then b2\<lparr> position := (position b2)\<lparr> vec_y :=
                            of_int SCREEN_HEIGHT - radius b2 - WALL_BOUNCE_BUFFER \<rparr> \<rparr>
                  else b2)
        in g\<lparr> ball := b3 \<rparr>
      else g)"

text \<open>
  The expression assigned to \<^verbatim>\<open>hitPosition\<close> (main.c 755-756 for the player's paddle,
  776-777 for the second paddle): the ball's height relative to the paddle's vertical
  centre, divided by half the paddle height.
\<close>

definition hitPositionOf :: "Ball \<Rightarrow> Paddle \<Rightarrow> real" where
  "hitPositionOf b pd =
     (vec_y (position b) - (rec_y (rect pd) + rec_height (rect pd) / 2)) /
     (rec_height (rect pd) / 2)"

text \<open>Hit on the player's (left) paddle (main.c 753-772).\<close>

definition UpdateGame_player_hit :: "Input \<Rightarrow> Game \<Rightarrow> Game" where
  "UpdateGame_player_hit inp g =
     (if CheckPaddleCollision (ball g) (playerPaddle g) then
        let hitPosition = hitPositionOf (ball g) (playerPaddle g);
            adjustedMaxSpeed = MAX_BALL_SPEED * ballSpeedMultiplier g;
            speed = min (\<bar>vec_x (velocity (ball g))\<bar> + SPEED_INCREMENT) adjustedMaxSpeed;
            g1 = g\<lparr> ball := (ball g)\<lparr> velocity :=
                     \<lparr> vec_x = speed, vec_y = hitPosition * (speed * (75 / 100)) \<rparr> \<rparr> \<rparr>;
            g2 = g1\<lparr> screenShake := 5 \<rparr>
        in CreateParticleEffect (rand_particles inp 0) g2 (position (ball g2))
             (ColorAlpha WHITE (8 / 10)) 15
      else g)"

text \<open>Hit on the second (right) paddle (main.c 774-793).\<close>

definition UpdateGame_ai_hit :: "Input \<Rightarrow> Game \<Rightarrow> Game" where
  "UpdateGame_ai_hit inp g =
     (if CheckPaddleCollision (ball g) (aiPaddle g) then
        let hitPosition = hitPositionOf (ball g) (aiPaddle g);
            adjustedMaxSpeed = MAX_BALL_SPEED * ballSpeedMultiplier g;
            speed = min (\<bar>vec_x (velocity (ball g))\<bar> + SPEED_INCREMENT) adjustedMaxSpeed;
            g1 = g\<lparr> ball := (ball g)\<lparr> velocity :=
                     \<lparr> vec_x = - speed, vec_y = hitPosition * (speed * (75 / 100)) \<rparr> \<rparr> \<rparr>;
            g2 = g1\<lparr> screenShake := 5 \<rparr>
        in CreateParticleEffect (rand_particles inp 1) g2 (position (ball g2))
             (ColorAlpha WHITE (8 / 10)) 15
      else g)"

text \<open>Scoring (main.c 795-804).\<close>

definition UpdateGame_scoring :: "Input \<Rightarrow> Game \<Rightarrow> Game" where
  "UpdateGame_scoring inp g =
     (if vec_x (position (ball g)) < of_int (- BALL_RADIUS) then
        ResetBall inp (g\<lparr> aiScore := aiScore g + 1 \<rparr>) False
      else if vec_x (position (ball g)) > of_int (SCREEN_WIDTH + BALL_RADIUS) then
        ResetBall inp (g\<lparr> playerScore := playerScore g + 1 \<rparr>) True
      else g)"

text \<open>Win check (main.c 806-809).\<close>

definition UpdateGame_game_over :: "Game \<Rightarrow> Game" where
  "UpdateGame_game_over g =
     (if playerScore g \<ge> winScore g \<or> aiScore g \<ge> winScore g
      then g\<lparr> state := STATE_GAME_OVER \<rparr> else g)"

text \<open>The ball part of a playing frame: everything after the paddles have moved.\<close>

definition UpdateGame_ball :: "Input \<Rightarrow> Game \<Rightarrow> Game" where
  "UpdateGame_ball inp g =
     UpdateGame_game_over (UpdateGame_scoring inp (UpdateGame_ai_hit inp
       (UpdateGame_player_hit inp (UpdateGame_walls (UpdateGame_move_ball g)))))"

definition UpdateGame :: "Input \<Rightarrow> Game \<Rightarrow> error + Game" where
  "UpdateGame inp g =
     (case state g of
        STATE_PLAYING \<Rightarrow>
          if key_P_pressed inp then Inr (g\<lparr> state := STATE_PAUSED \<rparr>)
          else (case UpdateGame_second inp (UpdateGame_player inp g) of
                  Inl e \<Rightarrow> Inl e
                | Inr g1 \<Rightarrow> Inr (UpdateGame_ball inp g1))
      | STATE_PAUSED \<Rightarrow>
          if key_P_pressed inp then Inr (g\<lparr> state := STATE_PLAYING \<rparr>) else Inr g
      | STATE_GAME_OVER \<Rightarrow>
          if key_R_pressed inp then Inr (InitGame inp g (mode g))
          else if key_M_pressed inp then Inr (g\<lparr> state := STATE_MODE_SELECT \<rparr>)
          else Inr g
      | _ \<Rightarrow> Inr g)"

text \<open>
  What \<^verbatim>\<open>DrawGame\<close> (main.c 834-1032) writes to the game: it damps the screen shake
  (838-846) and runs the particle update; everything else in it is drawing.
\<close>

definition DrawGame :: "Input \<Rightarrow> Game \<Rightarrow> Game" where
  "DrawGame inp g =
     (let g1 = g\<lparr> screenShake := screenShake g * (9 / 10) \<rparr>;
          g2 = (if screenShake g1 > 1 / 10 then
                  g1\<lparr> shakeOffset :=
                       \<lparr> vec_x = of_int (GetRandomValue (-10) 10 (rand_shake_x inp)) *
                                 (screenShake g1 / 10),
                         vec_y = of_int (GetRandomValue (-10) 10 (rand_shake_y inp)) *
                                 (screenShake g1 / 10) \<rparr> \<rparr>
                else g1\<lparr> shakeOffset := \<lparr> vec_x = 0, vec_y = 0 \<rparr>, screenShake := 0 \<rparr>)
      in UpdateAndDrawParticles inp g2)"

section \<open>Splash screen and mode selection\<close>

text \<open>\<^verbatim>\<open>UpdateSplashScreen\<close> (main.c 366-370).\<close>

definition UpdateSplashScreen :: "Input \<Rightarrow> Game \<Rightarrow> Game" where
  "UpdateSplashScreen inp g =
     (if mouse_left_pressed inp \<or> key_SPACE_pressed inp
      then g\<lparr> state := STATE_MODE_SELECT \<rparr> else g)"

text \<open>
  \<^verbatim>\<open>UpdateModeSelect\<close> (main.c 578-641).  The function keeps the flag
  \<^verbatim>\<open>static bool dragging\<close> between calls; the flag is a second argument and a second
  result.  \<^verbatim>\<open>SCREEN_HEIGHT * 3/4\<close> is the integer 600.
\<close>

definition sliderBg :: Rectangle where
  "sliderBg = \<lparr> rec_x = of_int (SCREEN_WIDTH div 2 - 150),
                 rec_y = of_int (SCREEN_HEIGHT * 3 div 4),
                 rec_width = 300, rec_height = 20 \<rparr>"

definition sliderHitArea :: Rectangle where
  "sliderHitArea = \<lparr> rec_x = rec_x sliderBg, rec_y = rec_y sliderBg - 10,
                      rec_width = rec_width sliderBg, rec_height = rec_height sliderBg + 20 \<rparr>"

definition mode1Bounds :: Rectangle where
  "mode1Bounds = \<lparr> rec_x = of_int (SCREEN_WIDTH div 2 - 200),
                    rec_y = of_int (SCREEN_HEIGHT div 2 - 30),
                    rec_width = 400, rec_height = 60 \<rparr>"

definition mode2Bounds :: Rectangle where
  "mode2Bounds = \<lparr> rec_x = of_int (SCREEN_WIDTH div 2 - 200),
                    rec_y = of_int (SCREEN_HEIGHT div 2 + 30),
                    rec_width = 400, rec_height = 60 \<rparr>"

definition UpdateModeSelect :: "Input \<Rightarrow> bool \<Rightarrow> Game \<Rightarrow> bool \<times> Game" where
  "UpdateModeSelect inp dragging g =
     (let g1 = (if key_ONE_pressed inp \<or> key_KP_1_pressed inp then InitGame inp g MODE_AI
                else if key_TWO_pressed inp \<or> key_KP_2_pressed inp then InitGame inp g MODE_MULTIPLAYER
                else g);
          mousePos = mousePosition inp;
          (dragging1, g2) =
            (if mouse_left_down inp then
               (if dragging \<or> CheckCollisionPointRec mousePos sliderHitArea then
                  let relativeX = Clamp (vec_x mousePos - rec_x sliderBg) 0 (rec_width sliderBg);
                      m1 = 5 / 10 + (relativeX / rec_width sliderBg) * (15 / 10)
                  in (True, g1\<lparr> ballSpeedMultiplier := roundf (m1 * 10) / 10 \<rparr>)
                else (dragging, g1))
             else (False, g1));
          g3 = (if mouse_left_pressed inp then
                  (if CheckCollisionPointRec mousePos mode1Bounds then InitGame inp g2 MODE_AI
                   else if CheckCollisionPointRec mousePos mode2Bounds then InitGame inp g2 MODE_MULTIPLAYER
                   else g2)
                else g2)
      in (dragging1, g3))"

text \<open>\<^verbatim>\<open>ToggleGameFullscreen\<close> (main.c 206-216); the window call is outside the state.\<close>

definition ToggleGameFullscreen :: "Game \<Rightarrow> Game" where
  "ToggleGameFullscreen g =
     (if \<not> fullscreen g then g\<lparr> fullscreen := True \<rparr> else g\<lparr> fullscreen := False \<rparr>)"

section \<open>Program start and sequences of calls\<close>

text \<open>
  The \<^verbatim>\<open>Game\<close> value that \<^verbatim>\<open>main\<close> builds before its loop (main.c 162-166): every
  field zero, then the splash state and the default multiplier 1.
\<close>

definition zero_vector :: Vector2 where
  "zero_vector = \<lparr> vec_x = 0, vec_y = 0 \<rparr>"

definition zero_paddle :: Paddle where
  "zero_paddle = \<lparr> rect = \<lparr> rec_x = 0, rec_y = 0, rec_width = 0, rec_height = 0 \<rparr>,
                    speed = 0, paddle_color = Color 0 0 0 0 \<rparr>"

definition zero_particle :: Particle where
  "zero_particle = \<lparr> p_position = zero_vector, p_velocity = zero_vector, lifeTime = 0,
                      maxLifeTime = 0, p_color = Color 0 0 0 0, p_size = 0 \<rparr>"

definition main_initial_game :: Game where
  "main_initial_game =
     \<lparr> state = STATE_SPLASH, mode = MODE_AI,
       ball = \<lparr> position = zero_vector, velocity = zero_vector, radius = 0, color = Color 0 0 0 0 \<rparr>,
       playerPaddle = zero_paddle, aiPaddle = zero_paddle,
       playerScore = 0, aiScore = 0, winScore = 0, fullscreen = False,
       ballSpeedMultiplier = 1, scoreAnimScale = 0, lastScoreTime = 0, screenShake = 0,
       shakeOffset = zero_vector,
       particles = replicate (nat MAX_PARTICLES) zero_particle, activeParticles = 0 \<rparr>"

text \<open>A frame in which no key or button is held and every raw random number is 0.\<close>

definition idle_input :: Input where
  "idle_input =
     \<lparr> key_P_pressed = False, key_W_down = False, key_S_down = False, key_UP_down = False,
       key_DOWN_down = False, key_R_pressed = False, key_M_pressed = False,
       key_ONE_pressed = False, key_KP_1_pressed = False, key_TWO_pressed = False,
       key_KP_2_pressed = False, key_SPACE_pressed = False, key_F_pressed = False,
       mouse_left_down = False, mouse_left_pressed = False, mousePosition = zero_vector,
       currentTime = 0, frameTime = 0, rand_ai_chance = 0, rand_ai_error = 0, rand_serve = 0,
       rand_shake_x = 0, rand_shake_y = 0, rand_particles = (\<lambda>site k. 0) \<rparr>"

text \<open>
  A call of the particle subsystem: an emission (\<^verbatim>\<open>CreateParticleEffect\<close> with its random
  draws, position, colour and count) or a tick (\<^verbatim>\<open>UpdateAndDrawParticles\<close> with the
  frame's input).  \<open>run_particle_ops\<close> performs a sequence of such calls in order.
\<close>

datatype ParticleOp = Emit "nat \<Rightarrow> int" Vector2 Color int | Tick Input

fun apply_particle_op :: "Game \<Rightarrow> ParticleOp \<Rightarrow> Game" where
  "apply_particle_op g (Emit draws pos col count) = CreateParticleEffect draws g pos col count"
| "apply_particle_op g (Tick inp) = UpdateAndDrawParticles inp g"

definition run_particle_ops :: "ParticleOp list \<Rightarrow> Game \<Rightarrow> Game" where
  "run_particle_ops ops g = foldl apply_particle_op g ops"

text \<open>
  A sequence of calls of \<^verbatim>\<open>UpdateGame\<close>, one per frame, as the main loop makes them while
  the game is past the menus.
\<close>

fun run_frames :: "Input list \<Rightarrow> Game \<Rightarrow> error + Game" where
  "run_frames [] g = Inr g"
| "run_frames (inp # inps) g =
     (case UpdateGame inp g of Inl e \<Rightarrow> Inl e | Inr g' \<Rightarrow> run_frames inps g')"

section \<open>Predicates and example states used in the statements\<close>

text \<open>Both paddles lie between the top of the screen and the lowest admissible position.\<close>

definition paddles_in_bounds :: "Game \<Rightarrow> bool" where
  "paddles_in_bounds g \<longleftrightarrow>
     0 \<le> rec_y (rect (playerPaddle g)) \<and>
     rec_y (rect (playerPaddle g)) \<le> of_int SCREEN_HEIGHT - rec_height (rect (playerPaddle g)) \<and>
     0 \<le> rec_y (rect (aiPaddle g)) \<and>
     rec_y (rect (aiPaddle g)) \<le> of_int SCREEN_HEIGHT - rec_height (rect (aiPaddle g))"

text \<open>The state with the two paddles moved to the heights \<open>y1\<close> and \<open>y2\<close>.\<close>

definition set_paddle_y :: "Game \<Rightarrow> real \<Rightarrow> real \<Rightarrow> Game" where
  "set_paddle_y g y1 y2 =
     g\<lparr> playerPaddle := (playerPaddle g)\<lparr> rect := (rect (playerPaddle g))\<lparr> rec_y := y1 \<rparr> \<rparr>,
        aiPaddle := (aiPaddle g)\<lparr> rect := (rect (aiPaddle g))\<lparr> rec_y := y2 \<rparr> \<rparr> \<rparr>"

text \<open>A two-player match right after \<^verbatim>\<open>InitGame\<close> at program start, multiplier 1.\<close>

definition fresh_match :: Game where
  "fresh_match = InitGame idle_input main_initial_game MODE_MULTIPLAYER"

definition ball_at :: "real \<Rightarrow> real \<Rightarrow> real \<Rightarrow> real \<Rightarrow> Ball" where
  "ball_at px py vx vy =
     \<lparr> position = \<lparr> vec_x = px, vec_y = py \<rparr>, velocity = \<lparr> vec_x = vx, vec_y = vy \<rparr>,
       radius = of_int BALL_RADIUS, color = COLOR_BALL \<rparr>"

text \<open>
  The ball low in front of the player's paddle, moving down and left, the paddle at its
  lowest position.
\<close>

definition corner_game :: Game where
  "corner_game =
     fresh_match\<lparr> ball := ball_at 60 775 (- 8) 6,
                    playerPaddle := (playerPaddle fresh_match)\<lparr> rect :=
                      (rect (playerPaddle fresh_match))\<lparr> rec_y := 600 \<rparr> \<rparr> \<rparr>"

text \<open>
  The ball one step in front of the right paddle with horizontal speed 16 while the
  multiplier is 0.5 (cap 7.5).
\<close>

definition overspeed_game :: Game where
  "overspeed_game =
     fresh_match\<lparr> ball := ball_at 1200 400 16 0, ballSpeedMultiplier := 1 / 2 \<rparr>"

text \<open>
  A frame of the mode menu in which key 2 is pressed while the left mouse button is held
  at the left end of the speed slider; the raw random number 100 makes the serve
  horizontal.
\<close>

definition key2_and_drag_input :: Input where
  "key2_and_drag_input =
     idle_input\<lparr> key_TWO_pressed := True, mouse_left_down := True,
                   mousePosition := \<lparr> vec_x = 490, vec_y = 600 \<rparr>, rand_serve := 100 \<rparr>"

text \<open>
  The mode menu at multiplier 2 (the slider at its right end), and the state after the
  frame above: the match has been started and the multiplier lowered in the same call.
\<close>

definition menu_at_double_speed :: Game where
  "menu_at_double_speed =
     main_initial_game\<lparr> state := STATE_MODE_SELECT, ballSpeedMultiplier := 2 \<rparr>"

definition started_while_dragging :: Game where
  "started_while_dragging = snd (UpdateModeSelect key2_and_drag_input False menu_at_double_speed)"

section \<open>Basic facts about the model\<close>

lemmas game_constants =
  SCREEN_WIDTH_def SCREEN_HEIGHT_def PADDLE_WIDTH_def PADDLE_HEIGHT_def BALL_RADIUS_def
  BALL_INITIAL_SPEED_def PADDLE_SPEED_def MAX_BALL_SPEED_def SPEED_INCREMENT_def
  WALL_BOUNCE_BUFFER_def MAX_PARTICLES_def

text \<open>\<open>Clamp\<close> lands in the interval when the interval is not empty.\<close>

lemma Clamp_range: "lo \<le> hi \<Longrightarrow> lo \<le> Clamp v lo hi \<and> Clamp v lo hi \<le> hi"
  by (simp add: Clamp_def Let_def)

subsection \<open>The particle loops\<close>

text \<open>An emission writes the particle array and the live count, and nothing else.\<close>

lemma CreateParticleEffect_loop_frame:
  "\<exists>ps n. CreateParticleEffect_loop d pos col c i g = g\<lparr>particles := ps, activeParticles := n\<rparr>"
proof (induction d pos col c i g rule: CreateParticleEffect_loop.induct)
  case (1 draws pos col count i g)
  show ?case
  proof (cases "i < count \<and> activeParticles g < MAX_PARTICLES")
    case True
    define g' where "g' = g\<lparr>particles := (particles g)[nat (activeParticles g) :=
             \<lparr> p_position = pos,
               p_velocity = \<lparr> vec_x = of_int (GetRandomValue (-200) 200 (draws (4 * nat i))) / 100,
                              vec_y = of_int (GetRandomValue (-200) 200 (draws (4 * nat i + 1))) / 100 \<rparr>,
               lifeTime = 0,
               maxLifeTime = of_int (GetRandomValue 30 90 (draws (4 * nat i + 2))) / 100,
               p_color = col,
               p_size = of_int (GetRandomValue 2 6 (draws (4 * nat i + 3))) \<rparr>],
            activeParticles := activeParticles g + 1\<rparr>"
    have step: "CreateParticleEffect_loop draws pos col count i g =
                CreateParticleEffect_loop draws pos col count (i + 1) g'"
      using True by (subst CreateParticleEffect_loop.simps) (simp add: Let_def g'_def)
    from "1.IH"[OF True refl refl] obtain ps n where
      "CreateParticleEffect_loop draws pos col count (i + 1) g' = g'\<lparr>particles := ps, activeParticles := n\<rparr>"
      unfolding g'_def by blast
    then have "CreateParticleEffect_loop draws pos col count i g = g\<lparr>particles := ps, activeParticles := n\<rparr>"
      using step by (simp add: g'_def)
    then show ?thesis by blast
  next
    case False
    then have "CreateParticleEffect_loop draws pos col count i g = g"
      by (subst CreateParticleEffect_loop.simps) auto
    moreover have "g = g\<lparr>particles := particles g, activeParticles := activeParticles g\<rparr>"
      by simp
    ultimately show ?thesis by metis
  qed
qed

text \<open>The live count after the emission loop, in closed form.\<close>

lemma CreateParticleEffect_loop_count:
  "activeParticles (CreateParticleEffect_loop d pos col c i g) =
     (if i < c \<and> activeParticles g < MAX_PARTICLES
      then min MAX_PARTICLES (activeParticles g + (c - i)) else activeParticles g)"
proof (induction d pos col c i g rule: CreateParticleEffect_loop.induct)
  case (1 draws pos col count i g)
  show ?case
  proof (cases "i < count \<and> activeParticles g < MAX_PARTICLES")
    case True
    define g' where "g' = g\<lparr>particles := (particles g)[nat (activeParticles g) :=
             \<lparr> p_position = pos,
               p_velocity = \<lparr> vec_x = of_int (GetRandomValue (-200) 200 (draws (4 * nat i))) / 100,
                              vec_y = of_int (GetRandomValue (-200) 200 (draws (4 * nat i + 1))) / 100 \<rparr>,
               lifeTime = 0,
               maxLifeTime = of_int (GetRandomValue 30 90 (draws (4 * nat i + 2))) / 100,
               p_color = col,
               p_size = of_int (GetRandomValue 2 6 (draws (4 * nat i + 3))) \<rparr>],
            activeParticles := activeParticles g + 1\<rparr>"
    have step: "CreateParticleEffect_loop draws pos col count i g =
                CreateParticleEffect_loop draws pos col count (i + 1) g'"
      using True by (subst CreateParticleEffect_loop.simps) (simp add: Let_def g'_def)
    have ih: "activeParticles (CreateParticleEffect_loop draws pos col count (i + 1) g') =
         (if i + 1 < count \<and> activeParticles g' < MAX_PARTICLES
          then min MAX_PARTICLES (activeParticles g' + (count - (i + 1))) else activeParticles g')"
      using "1.IH"[OF True refl refl] unfolding g'_def by blast
    have a: "activeParticles g' = activeParticles g + 1" by (simp add: g'_def)
    show ?thesis unfolding step ih a using True by (auto simp: MAX_PARTICLES_def)
  next
    case False
    then have "CreateParticleEffect_loop draws pos col count i g = g"
      by (subst CreateParticleEffect_loop.simps) auto
    with False show ?thesis by auto
  qed
qed

text \<open>The compaction loop keeps at most one particle per remaining iteration.\<close>

lemma UpdateAndDrawParticles_loop_count:
  "i \<le> active \<Longrightarrow>
   particlesToKeep \<le> fst (UpdateAndDrawParticles_loop dt active i particlesToKeep ps) \<and>
   fst (UpdateAndDrawParticles_loop dt active i particlesToKeep ps) \<le> particlesToKeep + (active - i)"
proof (induction "nat (active - i)" arbitrary: i particlesToKeep ps)
  case 0
  then have "\<not> i < active" by simp
  then have "UpdateAndDrawParticles_loop dt active i particlesToKeep ps = (particlesToKeep, ps)"
    by (subst UpdateAndDrawParticles_loop.simps) simp
  with 0 show ?case by simp
next
  case (Suc n)
  then have lt: "i < active" and n: "n = nat (active - (i + 1))" and le: "i + 1 \<le> active"
    by simp_all
  define p1 where "p1 = (ps ! nat i)\<lparr> lifeTime := lifeTime (ps ! nat i) + dt \<rparr>"
  define ps1 where "ps1 = ps[nat i := p1]"
  define p2 where "p2 = p1\<lparr> p_position :=
                          \<lparr> vec_x = vec_x (p_position p1) + vec_x (p_velocity p1),
                            vec_y = vec_y (p_position p1) + vec_y (p_velocity p1) \<rparr> \<rparr>"
  define ps3 where "ps3 = (if i \<noteq> particlesToKeep then ps1[nat i := p2, nat particlesToKeep := p2]
                           else ps1[nat i := p2])"
  show ?case
  proof (cases "lifeTime p1 \<ge> maxLifeTime p1")
    case True
    have step: "UpdateAndDrawParticles_loop dt active i particlesToKeep ps =
                UpdateAndDrawParticles_loop dt active (i + 1) particlesToKeep ps1"
      using lt True
      by (subst UpdateAndDrawParticles_loop.simps) (simp add: Let_def p1_def ps1_def)
    from Suc.hyps(1)[OF n le, of particlesToKeep ps1] show ?thesis
      unfolding step by simp
  next
    case False
    have step: "UpdateAndDrawParticles_loop dt active i particlesToKeep ps =
                UpdateAndDrawParticles_loop dt active (i + 1) (particlesToKeep + 1) ps3"
      using lt False
      by (subst UpdateAndDrawParticles_loop.simps)
         (simp add: Let_def p1_def ps1_def p2_def ps3_def)
    from Suc.hyps(1)[OF n le, of "particlesToKeep + 1" ps3] show ?thesis
      unfolding step by simp
  qed
qed

lemma UpdateAndDrawParticles_count:
  "0 \<le> activeParticles g \<Longrightarrow>
   0 \<le> activeParticles (UpdateAndDrawParticles inp g) \<and>
   activeParticles (UpdateAndDrawParticles inp g) \<le> activeParticles g"
  using UpdateAndDrawParticles_loop_count[of 0 "activeParticles g" 0 "frameTime inp" "particles g"]
  by (auto simp: UpdateAndDrawParticles_def split: prod.splits)


lemma CreateParticleEffect_frame:
  "\<exists>ps n. CreateParticleEffect d g pos col c = g\<lparr>particles := ps, activeParticles := n\<rparr>"
  unfolding CreateParticleEffect_def by (rule CreateParticleEffect_loop_frame)

lemma CreateParticleEffect_fields [simp]:
  "state (CreateParticleEffect d g pos col c) = state g"
  "mode (CreateParticleEffect d g pos col c) = mode g"
  "ball (CreateParticleEffect d g pos col c) = ball g"
  "playerPaddle (CreateParticleEffect d g pos col c) = playerPaddle g"
  "aiPaddle (CreateParticleEffect d g pos col c) = aiPaddle g"
  "playerScore (CreateParticleEffect d g pos col c) = playerScore g"
  "aiScore (CreateParticleEffect d g pos col c) = aiScore g"
  "winScore (CreateParticleEffect d g pos col c) = winScore g"
  "fullscreen (CreateParticleEffect d g pos col c) = fullscreen g"
  "ballSpeedMultiplier (CreateParticleEffect d g pos col c) = ballSpeedMultiplier g"
  "scoreAnimScale (CreateParticleEffect d g pos col c) = scoreAnimScale g"
  "lastScoreTime (CreateParticleEffect d g pos col c) = lastScoreTime g"
  "screenShake (CreateParticleEffect d g pos col c) = screenShake g"
  "shakeOffset (CreateParticleEffect d g pos col c) = shakeOffset g"
proof -
  obtain ps n where "CreateParticleEffect d g pos col c = g\<lparr>particles := ps, activeParticles := n\<rparr>"
    using CreateParticleEffect_frame by blast
  then show
  "state (CreateParticleEffect d g pos col c) = state g"
  "mode (CreateParticleEffect d g pos col c) = mode g"
  "ball (CreateParticleEffect d g pos col c) = ball g"
  "playerPaddle (CreateParticleEffect d g pos col c) = playerPaddle g"
  "aiPaddle (CreateParticleEffect d g pos col c) = aiPaddle g"
  "playerScore (CreateParticleEffect d g pos col c) = playerScore g"
  "aiScore (CreateParticleEffect d g pos col c) = aiScore g"
  "winScore (CreateParticleEffect d g pos col c) = winScore g"
  "fullscreen (CreateParticleEffect d g pos col c) = fullscreen g"
  "ballSpeedMultiplier (CreateParticleEffect d g pos col c) = ballSpeedMultiplier g"
  "scoreAnimScale (CreateParticleEffect d g pos col c) = scoreAnimScale g"
  "lastScoreTime (CreateParticleEffect d g pos col c) = lastScoreTime g"
  "screenShake (CreateParticleEffect d g pos col c) = screenShake g"
  "shakeOffset (CreateParticleEffect d g pos col c) = shakeOffset g"
    by simp_all
qed

lemma CreateParticleEffect_count:
  "activeParticles (CreateParticleEffect d g pos col c) =
     (if 0 < c \<and> activeParticles g < MAX_PARTICLES
      then min MAX_PARTICLES (activeParticles g + c) else activeParticles g)"
  unfolding CreateParticleEffect_def by (simp add: CreateParticleEffect_loop_count)

subsection \<open>Serve and initialisation\<close>

lemma ResetBall_fields [simp]:
  "state (ResetBall inp g s) = state g"
  "mode (ResetBall inp g s) = mode g"
  "playerPaddle (ResetBall inp g s) = playerPaddle g"
  "aiPaddle (ResetBall inp g s) = aiPaddle g"
  "playerScore (ResetBall inp g s) = playerScore g"
  "aiScore (ResetBall inp g s) = aiScore g"
  "winScore (ResetBall inp g s) = winScore g"
  "fullscreen (ResetBall inp g s) = fullscreen g"
  "ballSpeedMultiplier (ResetBall inp g s) = ballSpeedMultiplier g"
  "screenShake (ResetBall inp g s) = screenShake g"
  by (simp_all add: ResetBall_def Let_def)

lemma ResetBall_ball:
  "ball (ResetBall inp g s) =
     (ball g)\<lparr> position := \<lparr> vec_x = 640, vec_y = 400 \<rparr>,
               velocity := \<lparr> vec_x = (if s then 8 * ballSpeedMultiplier g else - (8 * ballSpeedMultiplier g)),
                              vec_y = of_int (GetRandomValue (-100) 100 (rand_serve inp)) / 100 *
                                      (8 * ballSpeedMultiplier g) \<rparr> \<rparr>"
  by (simp add: ResetBall_def Let_def game_constants)

lemma InitGame_fields:
  "state (InitGame inp g m) = STATE_PLAYING"
  "mode (InitGame inp g m) = m"
  "playerScore (InitGame inp g m) = 0"
  "aiScore (InitGame inp g m) = 0"
  "winScore (InitGame inp g m) = 10"
  "activeParticles (InitGame inp g m) = 0"
  "ballSpeedMultiplier (InitGame inp g m) = ballSpeedMultiplier g"
  "fullscreen (InitGame inp g m) = fullscreen g"
  "playerPaddle (InitGame inp g m) =
     \<lparr> rect = \<lparr> rec_x = 10, rec_y = 300, rec_width = 25, rec_height = 200 \<rparr>,
       speed = 12, paddle_color = COLOR_PLAYER_ONE \<rparr>"
  "aiPaddle (InitGame inp g m) =
     \<lparr> rect = \<lparr> rec_x = 1245, rec_y = 300, rec_width = 25, rec_height = 200 \<rparr>,
       speed = 12, paddle_color = (if m = MODE_AI then COLOR_AI else COLOR_PLAYER_TWO) \<rparr>"
  "ball (InitGame inp g m) =
     (ball g)\<lparr> radius := 20, color := COLOR_BALL,
               position := \<lparr> vec_x = 640, vec_y = 400 \<rparr>,
               velocity := \<lparr> vec_x = 8 * ballSpeedMultiplier g,
                              vec_y = of_int (GetRandomValue (-100) 100 (rand_serve inp)) / 100 *
                                      (8 * ballSpeedMultiplier g) \<rparr> \<rparr>"
  by (simp_all add: InitGame_def Let_def ResetBall_ball game_constants)

section \<open>The frame update never fails, and what each block leaves alone\<close>

lemma UpdateAI_predict_total:
  "UpdateAI_predict aiPad b =
     Inr (if vec_x (velocity b) > 0 \<and>
             (rec_x (rect aiPad) - vec_x (position b)) / vec_x (velocity b) > 0
          then (let predictedY = vec_y (position b) +
                       vec_y (velocity b) * ((rec_x (rect aiPad) - vec_x (position b)) / vec_x (velocity b))
                in UpdateAI_bounce_loop (bounceDistanceOf predictedY) predictedY)
          else vec_y (position b))"
  by (simp add: UpdateAI_predict_def float_div_def Let_def)

lemma UpdateAI_total:
  "\<exists>y. UpdateAI inp aiPad b g = Inr (UpdateAI_move inp aiPad g y)"
  by (simp add: UpdateAI_def UpdateAI_predict_total del: ex_simps) blast

lemma UpdateGame_second_total:
  "\<exists>pd. UpdateGame_second inp g = Inr (g\<lparr> aiPaddle := pd \<rparr>)"
proof (cases "mode g = MODE_AI")
  case True
  obtain y where "UpdateAI inp (aiPaddle g) (ball g) g = Inr (UpdateAI_move inp (aiPaddle g) g y)"
    using UpdateAI_total by blast
  with True have "UpdateGame_second inp g = Inr (g\<lparr> aiPaddle := UpdateAI_move inp (aiPaddle g) g y \<rparr>)"
    by (simp add: UpdateGame_second_def)
  then show ?thesis by blast
next
  case False
  then have "UpdateGame_second inp g = Inr (g\<lparr> aiPaddle := (aiPaddle g)\<lparr> rect := (rect (aiPaddle g))\<lparr> rec_y :=
                   Clamp (rec_y (rect (aiPaddle g)) +
                     (if key_DOWN_down inp then (if key_UP_down inp then 0 - speed (aiPaddle g) else 0) + speed (aiPaddle g)
                      else (if key_UP_down inp then 0 - speed (aiPaddle g) else 0)))
                    0 (of_int SCREEN_HEIGHT - rec_height (rect (aiPaddle g))) \<rparr> \<rparr> \<rparr>)"
    by (simp add: UpdateGame_second_def Let_def)
  then show ?thesis by blast
qed

lemma UpdateGame_player_fields [simp]:
  "state (UpdateGame_player inp g) = state g"
  "mode (UpdateGame_player inp g) = mode g"
  "ball (UpdateGame_player inp g) = ball g"
  "aiPaddle (UpdateGame_player inp g) = aiPaddle g"
  "playerScore (UpdateGame_player inp g) = playerScore g"
  "aiScore (UpdateGame_player inp g) = aiScore g"
  "winScore (UpdateGame_player inp g) = winScore g"
  "ballSpeedMultiplier (UpdateGame_player inp g) = ballSpeedMultiplier g"
  by (simp_all add: UpdateGame_player_def Let_def)

lemma UpdateGame_move_ball_fields [simp]:
  "state (UpdateGame_move_ball g) = state g"
  "mode (UpdateGame_move_ball g) = mode g"
  "playerPaddle (UpdateGame_move_ball g) = playerPaddle g"
  "aiPaddle (UpdateGame_move_ball g) = aiPaddle g"
  "playerScore (UpdateGame_move_ball g) = playerScore g"
  "aiScore (UpdateGame_move_ball g) = aiScore g"
  "winScore (UpdateGame_move_ball g) = winScore g"
  "ballSpeedMultiplier (UpdateGame_move_ball g) = ballSpeedMultiplier g"
  by (simp_all add: UpdateGame_move_ball_def)

lemma UpdateGame_walls_fields [simp]:
  "state (UpdateGame_walls g) = state g"
  "mode (UpdateGame_walls g) = mode g"
  "playerPaddle (UpdateGame_walls g) = playerPaddle g"
  "aiPaddle (UpdateGame_walls g) = aiPaddle g"
  "playerScore (UpdateGame_walls g) = playerScore g"
  "aiScore (UpdateGame_walls g) = aiScore g"
  "winScore (UpdateGame_walls g) = winScore g"
  "ballSpeedMultiplier (UpdateGame_walls g) = ballSpeedMultiplier g"
  by (simp_all add: UpdateGame_walls_def Let_def)

lemma UpdateGame_player_hit_fields [simp]:
  "state (UpdateGame_player_hit inp g) = state g"
  "mode (UpdateGame_player_hit inp g) = mode g"
  "playerPaddle (UpdateGame_player_hit inp g) = playerPaddle g"
  "aiPaddle (UpdateGame_player_hit inp g) = aiPaddle g"
  "playerScore (UpdateGame_player_hit inp g) = playerScore g"
  "aiScore (UpdateGame_player_hit inp g) = aiScore g"
  "winScore (UpdateGame_player_hit inp g) = winScore g"
  "ballSpeedMultiplier (UpdateGame_player_hit inp g) = ballSpeedMultiplier g"
  by (simp_all add: UpdateGame_player_hit_def Let_def)

lemma UpdateGame_ai_hit_fields [simp]:
  "state (UpdateGame_ai_hit inp g) = state g"
  "mode (UpdateGame_ai_hit inp g) = mode g"
  "playerPaddle (UpdateGame_ai_hit inp g) = playerPaddle g"
  "aiPaddle (UpdateGame_ai_hit inp g) = aiPaddle g"
  "playerScore (UpdateGame_ai_hit inp g) = playerScore g"
  "aiScore (UpdateGame_ai_hit inp g) = aiScore g"
  "winScore (UpdateGame_ai_hit inp g) = winScore g"
  "ballSpeedMultiplier (UpdateGame_ai_hit inp g) = ballSpeedMultiplier g"
  by (simp_all add: UpdateGame_ai_hit_def Let_def)

lemma UpdateGame_scoring_fields [simp]:
  "state (UpdateGame_scoring inp g) = state g"
  "mode (UpdateGame_scoring inp g) = mode g"
  "playerPaddle (UpdateGame_scoring inp g) = playerPaddle g"
  "aiPaddle (UpdateGame_scoring inp g) = aiPaddle g"
  "winScore (UpdateGame_scoring inp g) = winScore g"
  "ballSpeedMultiplier (UpdateGame_scoring inp g) = ballSpeedMultiplier g"
  by (simp_all add: UpdateGame_scoring_def)

lemma UpdateGame_game_over_fields [simp]:
  "mode (UpdateGame_game_over g) = mode g"
  "ball (UpdateGame_game_over g) = ball g"
  "playerPaddle (UpdateGame_game_over g) = playerPaddle g"
  "aiPaddle (UpdateGame_game_over g) = aiPaddle g"
  "playerScore (UpdateGame_game_over g) = playerScore g"
  "aiScore (UpdateGame_game_over g) = aiScore g"
  "winScore (UpdateGame_game_over g) = winScore g"
  "ballSpeedMultiplier (UpdateGame_game_over g) = ballSpeedMultiplier g"
  by (simp_all add: UpdateGame_game_over_def)

lemma UpdateGame_ball_fields [simp]:
  "mode (UpdateGame_ball inp g) = mode g"
  "playerPaddle (UpdateGame_ball inp g) = playerPaddle g"
  "aiPaddle (UpdateGame_ball inp g) = aiPaddle g"
  "winScore (UpdateGame_ball inp g) = winScore g"
  "ballSpeedMultiplier (UpdateGame_ball inp g) = ballSpeedMultiplier g"
  by (simp_all add: UpdateGame_ball_def)

lemma UpdateGame_total: "\<exists>g'. UpdateGame inp g = Inr g'"
proof -
  obtain pd where "UpdateGame_second inp (UpdateGame_player inp g) =
      Inr ((UpdateGame_player inp g)\<lparr> aiPaddle := pd \<rparr>)"
    using UpdateGame_second_total by blast
  then show ?thesis
    by (cases "state g") (simp_all add: UpdateGame_def)
qed

lemma UpdateGame_multiplier:
  assumes "UpdateGame inp g = Inr g'"
  shows "ballSpeedMultiplier g' = ballSpeedMultiplier g"
proof -
  obtain pd where sec: "UpdateGame_second inp (UpdateGame_player inp g) =
      Inr ((UpdateGame_player inp g)\<lparr> aiPaddle := pd \<rparr>)"
    using UpdateGame_second_total by blast
  have pl: "ballSpeedMultiplier (UpdateGame_player inp g) = ballSpeedMultiplier g"
    by (simp add: UpdateGame_player_def Let_def)
  from assms sec pl show ?thesis
    by (cases "state g")
       (auto simp: UpdateGame_def InitGame_fields split: if_splits)
qed

section \<open>Claims\<close>

text \<open>
  C10.  \<^verbatim>\<open>InitGame\<close> leaves \<^verbatim>\<open>ballSpeedMultiplier\<close> as it was, for every prior state
  and every mode.  The frame update \<^verbatim>\<open>UpdateGame\<close> (which restarts the match from
  \<^verbatim>\<open>STATE_GAME_OVER\<close> through \<^verbatim>\<open>InitGame\<close>), the splash update, the fullscreen toggle
  and the state effects of \<^verbatim>\<open>DrawGame\<close> leave it alone as well, and \<^verbatim>\<open>UpdateModeSelect\<close> (which starts a match through
  \<^verbatim>\<open>InitGame\<close>) leaves it alone in every frame without a slider interaction, that is,
  unless the left mouse button is down while a drag is in progress or the pointer is on
  the slider.
\<close>
theorem InitGame_keeps_ballSpeedMultiplier:
  "ballSpeedMultiplier (InitGame inp g m) = ballSpeedMultiplier g \<and>
   (\<exists>g'. UpdateGame inp g = Inr g' \<and> ballSpeedMultiplier g' = ballSpeedMultiplier g) \<and>
   ballSpeedMultiplier (UpdateSplashScreen inp g) = ballSpeedMultiplier g \<and>
   ballSpeedMultiplier (ToggleGameFullscreen g) = ballSpeedMultiplier g \<and>
   ballSpeedMultiplier (DrawGame inp g) = ballSpeedMultiplier g \<and>
   (\<not> (mouse_left_down inp \<and>
        (dragging \<or> CheckCollisionPointRec (mousePosition inp) sliderHitArea)) \<longrightarrow>
    ballSpeedMultiplier (snd (UpdateModeSelect inp dragging g)) = ballSpeedMultiplier g)"
proof -
  have 1: "ballSpeedMultiplier (InitGame inp g m) = ballSpeedMultiplier g"
    by (simp add: InitGame_fields)
  have 2: "\<exists>g'. UpdateGame inp g = Inr g' \<and> ballSpeedMultiplier g' = ballSpeedMultiplier g"
    using UpdateGame_total UpdateGame_multiplier by blast
  have 3: "ballSpeedMultiplier (UpdateSplashScreen inp g) = ballSpeedMultiplier g"
    by (simp add: UpdateSplashScreen_def)
  have 4: "ballSpeedMultiplier (ToggleGameFullscreen g) = ballSpeedMultiplier g"
    by (simp add: ToggleGameFullscreen_def)
  have 6: "ballSpeedMultiplier (DrawGame inp g) = ballSpeedMultiplier g"
    by (simp add: DrawGame_def UpdateAndDrawParticles_def Let_def split: prod.splits)
  have 5: "\<not> (mouse_left_down inp \<and>
        (dragging \<or> CheckCollisionPointRec (mousePosition inp) sliderHitArea)) \<longrightarrow>
    ballSpeedMultiplier (snd (UpdateModeSelect inp dragging g)) = ballSpeedMultiplier g"
  proof
    assume "\<not> (mouse_left_down inp \<and>
        (dragging \<or> CheckCollisionPointRec (mousePosition inp) sliderHitArea))"
    then consider "\<not> mouse_left_down inp"
      | "mouse_left_down inp" "\<not> dragging" "\<not> CheckCollisionPointRec (mousePosition inp) sliderHitArea"
      by blast
    then show "ballSpeedMultiplier (snd (UpdateModeSelect inp dragging g)) = ballSpeedMultiplier g"
      by cases (simp_all add: UpdateModeSelect_def Let_def InitGame_fields)
  qed
  from 1 2 3 4 5 6 show ?thesis by blast
qed

text \<open>An idle frame of the mode menu at program start: the multiplier stays 1.\<close>

theorem InitGame_keeps_ballSpeedMultiplier_witness:
  "\<not> (mouse_left_down idle_input \<and>
        (False \<or> CheckCollisionPointRec (mousePosition idle_input) sliderHitArea)) \<and>
   ballSpeedMultiplier (snd (UpdateModeSelect idle_input False main_initial_game)) = 1 \<and>
   ballSpeedMultiplier (InitGame idle_input main_initial_game MODE_AI) = 1"
  using InitGame_keeps_ballSpeedMultiplier [of idle_input main_initial_game MODE_AI False]
  by (simp add: idle_input_def main_initial_game_def)

lemma apply_particle_op_inv:
  "0 \<le> activeParticles g \<and> activeParticles g \<le> MAX_PARTICLES \<Longrightarrow>
   0 \<le> activeParticles (apply_particle_op g op) \<and>
   activeParticles (apply_particle_op g op) \<le> MAX_PARTICLES"
proof (cases op)
  case (Emit d pos col c)
  assume "0 \<le> activeParticles g \<and> activeParticles g \<le> MAX_PARTICLES"
  then show ?thesis
    by (simp add: Emit CreateParticleEffect_count MAX_PARTICLES_def)
next
  case (Tick inp)
  assume a: "0 \<le> activeParticles g \<and> activeParticles g \<le> MAX_PARTICLES"
  then have "0 \<le> activeParticles g" by simp
  from UpdateAndDrawParticles_count[OF this, of inp] a show ?thesis
    by (simp add: Tick)
qed

lemma run_particle_ops_inv:
  "0 \<le> activeParticles g \<and> activeParticles g \<le> MAX_PARTICLES \<Longrightarrow>
   0 \<le> activeParticles (run_particle_ops ops g) \<and>
   activeParticles (run_particle_ops ops g) \<le> MAX_PARTICLES"
  unfolding run_particle_ops_def
proof (induction ops arbitrary: g)
  case Nil
  then show ?case by simp
next
  case (Cons op ops)
  from Cons.IH[OF apply_particle_op_inv[OF Cons.prems]] show ?case by simp
qed

text \<open>
  C8.  Start from any initialised game (\<^verbatim>\<open>InitGame\<close> on any state, any mode) and perform
  any sequence of emissions and ticks.  The live count \<^verbatim>\<open>activeParticles\<close> is then at most
  100; a further emission of \<open>count\<close> particles yields the count
  \<open>min 100 (live + max 0 count)\<close>, so a request beyond the capacity is cut off at 100 and
  the function returns normally; and a further tick does not increase the count.
\<close>

theorem particle_pool_capacity:
  "activeParticles (run_particle_ops ops (InitGame inp0 g0 m)) \<le> MAX_PARTICLES \<and>
   activeParticles (CreateParticleEffect d (run_particle_ops ops (InitGame inp0 g0 m)) pos col count) =
     min MAX_PARTICLES (activeParticles (run_particle_ops ops (InitGame inp0 g0 m)) + max 0 count) \<and>
   activeParticles (UpdateAndDrawParticles inp (run_particle_ops ops (InitGame inp0 g0 m)))
     \<le> activeParticles (run_particle_ops ops (InitGame inp0 g0 m))"
proof -
  define g where "g = run_particle_ops ops (InitGame inp0 g0 m)"
  have "0 \<le> activeParticles (InitGame inp0 g0 m) \<and> activeParticles (InitGame inp0 g0 m) \<le> MAX_PARTICLES"
    by (simp add: InitGame_fields MAX_PARTICLES_def)
  from run_particle_ops_inv[OF this, of ops]
  have inv: "0 \<le> activeParticles g" "activeParticles g \<le> MAX_PARTICLES"
    by (simp_all add: g_def)
  have emit: "activeParticles (CreateParticleEffect d g pos col count) =
     min MAX_PARTICLES (activeParticles g + max 0 count)"
    using inv by (auto simp: CreateParticleEffect_count MAX_PARTICLES_def)
  have tick: "activeParticles (UpdateAndDrawParticles inp g) \<le> activeParticles g"
    using UpdateAndDrawParticles_count[OF inv(1), of inp] by simp
  from inv emit tick show ?thesis unfolding g_def by blast
qed

text \<open>
  C9.  The prediction in \<^verbatim>\<open>UpdateAI\<close> never divides by zero: it always returns a value
  (never \<open>DivisionByZero\<close>), hence so does \<^verbatim>\<open>UpdateAI\<close>.  When the ball's horizontal
  velocity is not strictly positive the prediction is the ball's current vertical
  position; when it is strictly positive the division of the horizontal distance by that
  velocity is defined.
\<close>
theorem UpdateAI_division_guarded:
  "(\<exists>y. UpdateAI_predict aiPad b = Inr y) \<and>
   (\<exists>pd. UpdateAI inp aiPad b g = Inr pd) \<and>
   (vec_x (velocity b) \<le> 0 \<longrightarrow> UpdateAI_predict aiPad b = Inr (vec_y (position b))) \<and>
   (vec_x (velocity b) > 0 \<longrightarrow>
      float_div (rec_x (rect aiPad) - vec_x (position b)) (vec_x (velocity b)) =
      Inr ((rec_x (rect aiPad) - vec_x (position b)) / vec_x (velocity b)))"
  using UpdateAI_total[of inp aiPad b g]
  by (auto simp: UpdateAI_predict_total float_div_def)

text \<open>A ball that moves to the left, away from the right paddle: the prediction is its height.\<close>

theorem UpdateAI_division_guarded_witness:
  "vec_x (velocity \<lparr> position = \<lparr> vec_x = 640, vec_y = 400 \<rparr>,
                      velocity = \<lparr> vec_x = - 8, vec_y = 3 \<rparr>,
                      radius = 20, color = COLOR_BALL \<rparr>) \<le> 0 \<and>
   UpdateAI_predict (aiPaddle (InitGame idle_input main_initial_game MODE_AI))
     \<lparr> position = \<lparr> vec_x = 640, vec_y = 400 \<rparr>,
       velocity = \<lparr> vec_x = - 8, vec_y = 3 \<rparr>,
       radius = 20, color = COLOR_BALL \<rparr> = Inr 400 \<and>
   float_div (1245 - 45) 8 = Inr 150"
  using UpdateAI_division_guarded
    [of "aiPaddle (InitGame idle_input main_initial_game MODE_AI)"
        "\<lparr> position = \<lparr> vec_x = 640, vec_y = 400 \<rparr>,
          velocity = \<lparr> vec_x = - 8, vec_y = 3 \<rparr>,
          radius = 20, color = COLOR_BALL \<rparr>" idle_input main_initial_game]
    UpdateAI_division_guarded
    [of "aiPaddle (InitGame idle_input main_initial_game MODE_AI)"
        "\<lparr> position = \<lparr> vec_x = 45, vec_y = 700 \<rparr>,
          velocity = \<lparr> vec_x = 8, vec_y = 8 \<rparr>,
          radius = 20, color = COLOR_BALL \<rparr>" idle_input main_initial_game]
  by (simp add: InitGame_fields)

text \<open>
  C7.  \<^verbatim>\<open>InitGame\<close> enters \<^verbatim>\<open>STATE_PLAYING\<close> in the requested mode, sets both scores to
  0 and the win score to 10, re-creates both paddles (left paddle at x = 10, right paddle
  at x = 1245, both at y = 300, 25 by 200, speed 12), re-creates the ball (radius 20, at
  the centre (640, 400)) and empties the particle pool.  The ball is served with the
  player as server: its horizontal velocity is \<open>+ 8 * ballSpeedMultiplier\<close>, which for a
  positive multiplier points to the right, away from the player's (left) paddle and
  toward the second (right) paddle.
\<close>

theorem InitGame_serves_from_player:
  "state (InitGame inp g m) = STATE_PLAYING \<and>
   mode (InitGame inp g m) = m \<and>
   playerScore (InitGame inp g m) = 0 \<and>
   aiScore (InitGame inp g m) = 0 \<and>
   winScore (InitGame inp g m) = 10 \<and>
   activeParticles (InitGame inp g m) = 0 \<and>
   playerPaddle (InitGame inp g m) =
     \<lparr> rect = \<lparr> rec_x = 10, rec_y = 300, rec_width = 25, rec_height = 200 \<rparr>,
       speed = 12, paddle_color = COLOR_PLAYER_ONE \<rparr> \<and>
   aiPaddle (InitGame inp g m) =
     \<lparr> rect = \<lparr> rec_x = 1245, rec_y = 300, rec_width = 25, rec_height = 200 \<rparr>,
       speed = 12, paddle_color = (if m = MODE_AI then COLOR_AI else COLOR_PLAYER_TWO) \<rparr> \<and>
   radius (ball (InitGame inp g m)) = 20 \<and>
   position (ball (InitGame inp g m)) = \<lparr> vec_x = 640, vec_y = 400 \<rparr> \<and>
   vec_x (velocity (ball (InitGame inp g m))) = BALL_INITIAL_SPEED * ballSpeedMultiplier g \<and>
   (0 < ballSpeedMultiplier g \<longrightarrow>
      0 < vec_x (velocity (ball (InitGame inp g m))) \<and>
      rec_x (rect (playerPaddle (InitGame inp g m))) < vec_x (position (ball (InitGame inp g m))) \<and>
      vec_x (position (ball (InitGame inp g m))) < rec_x (rect (aiPaddle (InitGame inp g m))))"
  by (simp add: InitGame_fields BALL_INITIAL_SPEED_def)

text \<open>At program start (multiplier 1) the serve has horizontal velocity 8, to the right.\<close>

theorem InitGame_serves_from_player_witness:
  "0 < ballSpeedMultiplier main_initial_game \<and>
   vec_x (velocity (ball (InitGame idle_input main_initial_game MODE_AI))) = 8 \<and>
   state (InitGame idle_input main_initial_game MODE_AI) = STATE_PLAYING"
  using InitGame_serves_from_player [of idle_input main_initial_game MODE_AI]
  by (simp add: main_initial_game_def BALL_INITIAL_SPEED_def)

text \<open>
  C7 as stated fails: after \<^verbatim>\<open>InitGame\<close> at program start the player's paddle is to the
  left of the ball and the ball's horizontal velocity is not negative, so the ball is not
  directed at the player's paddle.
\<close>

theorem InitGame_serve_not_toward_player:
  "rec_x (rect (playerPaddle (InitGame idle_input main_initial_game MODE_AI)))
     < vec_x (position (ball (InitGame idle_input main_initial_game MODE_AI))) \<and>
   \<not> vec_x (velocity (ball (InitGame idle_input main_initial_game MODE_AI))) < 0"
  by (simp add: InitGame_fields main_initial_game_def)

subsection \<open>The bounce folding of the AI prediction\<close>

lemma UpdateAI_bounce_loop_done:
  "\<not> bounceDistance > 0 \<Longrightarrow> UpdateAI_bounce_loop bounceDistance predictedY = predictedY"
  by (subst UpdateAI_bounce_loop.simps) simp

text \<open>A projection less than two screen heights away from the screen is folded into it.\<close>

lemma UpdateAI_bounce_loop_in_range:
  assumes "- 1600 < p" "p < 1600"
  shows "0 \<le> UpdateAI_bounce_loop (bounceDistanceOf p) p \<and>
         UpdateAI_bounce_loop (bounceDistanceOf p) p \<le> 800"
proof -
  have mid: "UpdateAI_bounce_loop (bounceDistanceOf q) q = q" if "0 \<le> q" "q \<le> 800" for q
    using that by (subst UpdateAI_bounce_loop.simps) (simp add: bounceDistanceOf_def SCREEN_HEIGHT_def)
  have high: "UpdateAI_bounce_loop (bounceDistanceOf q) q = 1600 - q" if "800 < q" "q < 1600" for q
    using that mid[of "1600 - q"]
    by (subst UpdateAI_bounce_loop.simps) (simp add: bounceDistanceOf_def SCREEN_HEIGHT_def Let_def)
  have low: "UpdateAI_bounce_loop (bounceDistanceOf q) q =
             UpdateAI_bounce_loop (bounceDistanceOf (- q)) (- q)" if "q < 0" for q
    using that
    by (subst UpdateAI_bounce_loop.simps) (simp add: bounceDistanceOf_def SCREEN_HEIGHT_def Let_def)
  consider "p < - 800" | "- 800 \<le> p" "p < 0" | "0 \<le> p" "p \<le> 800" | "800 < p"
    by linarith
  then show ?thesis
  proof cases
    case 1
    with assms low[of p] high[of "- p"] show ?thesis by simp
  next
    case 2
    with low[of p] mid[of "- p"] show ?thesis by simp
  next
    case 3
    with mid[of p] show ?thesis by simp
  next
    case 4
    with assms high[of p] show ?thesis by simp
  qed
qed

text \<open>A projection at least two screen heights below the top is returned as it is.\<close>

lemma UpdateAI_bounce_loop_far:
  "1600 \<le> p \<Longrightarrow> UpdateAI_bounce_loop (bounceDistanceOf p) p = p"
  by (rule UpdateAI_bounce_loop_done) (simp add: bounceDistanceOf_def SCREEN_HEIGHT_def)

text \<open>
  C6, evaluated at a failing input.  The ball has just left the bottom end of the player's
  paddle: position (45, 760), velocity (8.2, 6.15), moving toward the right paddle at
  x = 1245.  The linear projection is 760 + 6.15 * (1200 / 8.2) = 1660.  The expression
  assigned to \<^verbatim>\<open>bounceDistance\<close> is 1600 - 1660 < 0, the loop body never runs, and the
  predicted height is 1660, outside [0, 800].
\<close>

theorem UpdateAI_predict_not_folded:
  "UpdateAI_predict (aiPaddle (InitGame idle_input main_initial_game MODE_AI))
     (ball_at 45 760 (82 / 10) (615 / 100)) = Inr 1660 \<and>
   \<not> (1660 \<le> (of_int SCREEN_HEIGHT :: real))"
  by (simp add: UpdateAI_predict_total InitGame_fields ball_at_def Let_def
      UpdateAI_bounce_loop_far SCREEN_HEIGHT_def)

subsection \<open>Shape of a playing frame\<close>

lemma UpdateAI_move_shape:
  "\<exists>y1. UpdateAI_move inp aiPad g p =
     aiPad\<lparr> rect := (rect aiPad)\<lparr> rec_y :=
        Clamp y1 0 (of_int SCREEN_HEIGHT - rec_height (rect aiPad)) \<rparr> \<rparr>"
  unfolding UpdateAI_move_def Let_def by (rule exI) (rule refl)

lemma UpdateGame_second_shape:
  "\<exists>y1. UpdateGame_second inp g =
     Inr (g\<lparr> aiPaddle := (aiPaddle g)\<lparr> rect := (rect (aiPaddle g))\<lparr> rec_y :=
        Clamp y1 0 (of_int SCREEN_HEIGHT - rec_height (rect (aiPaddle g))) \<rparr> \<rparr> \<rparr>)"
proof (cases "mode g = MODE_AI")
  case True
  obtain p where p: "UpdateAI inp (aiPaddle g) (ball g) g = Inr (UpdateAI_move inp (aiPaddle g) g p)"
    using UpdateAI_total by blast
  obtain y1 where "UpdateAI_move inp (aiPaddle g) g p =
     (aiPaddle g)\<lparr> rect := (rect (aiPaddle g))\<lparr> rec_y :=
        Clamp y1 0 (of_int SCREEN_HEIGHT - rec_height (rect (aiPaddle g))) \<rparr> \<rparr>"
    using UpdateAI_move_shape by blast
  with p True have "UpdateGame_second inp g =
     Inr (g\<lparr> aiPaddle := (aiPaddle g)\<lparr> rect := (rect (aiPaddle g))\<lparr> rec_y :=
        Clamp y1 0 (of_int SCREEN_HEIGHT - rec_height (rect (aiPaddle g))) \<rparr> \<rparr> \<rparr>)"
    by (simp add: UpdateGame_second_def)
  then show ?thesis by blast
next
  case False
  then have "UpdateGame_second inp g = Inr (g\<lparr> aiPaddle := (aiPaddle g)\<lparr> rect := (rect (aiPaddle g))\<lparr> rec_y :=
                   Clamp (rec_y (rect (aiPaddle g)) +
                     (if key_DOWN_down inp then (if key_UP_down inp then 0 - speed (aiPaddle g) else 0) + speed (aiPaddle g)
                      else (if key_UP_down inp then 0 - speed (aiPaddle g) else 0)))
                    0 (of_int SCREEN_HEIGHT - rec_height (rect (aiPaddle g))) \<rparr> \<rparr> \<rparr>)"
    by (simp add: UpdateGame_second_def Let_def)
  then show ?thesis by blast
qed

lemma UpdateGame_player_shape:
  "\<exists>y1. UpdateGame_player inp g =
     g\<lparr> playerPaddle := (playerPaddle g)\<lparr> rect := (rect (playerPaddle g))\<lparr> rec_y :=
        Clamp y1 0 (of_int SCREEN_HEIGHT - rec_height (rect (playerPaddle g))) \<rparr> \<rparr> \<rparr>"
  unfolding UpdateGame_player_def Let_def by (rule exI) (rule refl)

text \<open>
  A playing frame without the pause key: both paddles get a clamped height, and the rest
  of the frame is the ball part, run on the state with the moved paddles.
\<close>

lemma UpdateGame_playing:
  assumes "state g = STATE_PLAYING" "\<not> key_P_pressed inp"
  shows "\<exists>y1 y2. UpdateGame inp g = Inr (UpdateGame_ball inp
           (g\<lparr> playerPaddle := (playerPaddle g)\<lparr> rect := (rect (playerPaddle g))\<lparr> rec_y :=
                  Clamp y1 0 (of_int SCREEN_HEIGHT - rec_height (rect (playerPaddle g))) \<rparr> \<rparr>,
                aiPaddle := (aiPaddle g)\<lparr> rect := (rect (aiPaddle g))\<lparr> rec_y :=
                  Clamp y2 0 (of_int SCREEN_HEIGHT - rec_height (rect (aiPaddle g))) \<rparr> \<rparr> \<rparr>))"
proof -
  obtain y1 where 1: "UpdateGame_player inp g =
     g\<lparr> playerPaddle := (playerPaddle g)\<lparr> rect := (rect (playerPaddle g))\<lparr> rec_y :=
        Clamp y1 0 (of_int SCREEN_HEIGHT - rec_height (rect (playerPaddle g))) \<rparr> \<rparr> \<rparr>"
    using UpdateGame_player_shape by blast
  obtain y2 where 2: "UpdateGame_second inp (UpdateGame_player inp g) =
     Inr ((UpdateGame_player inp g)\<lparr> aiPaddle := (aiPaddle (UpdateGame_player inp g))\<lparr> rect :=
        (rect (aiPaddle (UpdateGame_player inp g)))\<lparr> rec_y :=
        Clamp y2 0 (of_int SCREEN_HEIGHT - rec_height (rect (aiPaddle (UpdateGame_player inp g)))) \<rparr> \<rparr> \<rparr>)"
    using UpdateGame_second_shape by blast
  have "UpdateGame inp g = Inr (UpdateGame_ball inp
           (g\<lparr> playerPaddle := (playerPaddle g)\<lparr> rect := (rect (playerPaddle g))\<lparr> rec_y :=
                  Clamp y1 0 (of_int SCREEN_HEIGHT - rec_height (rect (playerPaddle g))) \<rparr> \<rparr>,
                aiPaddle := (aiPaddle g)\<lparr> rect := (rect (aiPaddle g))\<lparr> rec_y :=
                  Clamp y2 0 (of_int SCREEN_HEIGHT - rec_height (rect (aiPaddle g))) \<rparr> \<rparr> \<rparr>))"
    using assms 2 unfolding UpdateGame_def by (simp add: 1)
  then show ?thesis by blast
qed

lemma UpdateGame_ball_state:
  "state (UpdateGame_ball inp g) =
     (if playerScore (UpdateGame_ball inp g) \<ge> winScore (UpdateGame_ball inp g) \<or>
         aiScore (UpdateGame_ball inp g) \<ge> winScore (UpdateGame_ball inp g)
      then STATE_GAME_OVER else state g)"
  by (simp add: UpdateGame_ball_def UpdateGame_game_over_def)

text \<open>
  C2.  In a \<^verbatim>\<open>STATE_PLAYING\<close> frame that reaches the scoring step (the pause key is not
  pressed), the phase after the frame is \<^verbatim>\<open>STATE_GAME_OVER\<close> whenever one of the scores
  after the frame is at least \<^verbatim>\<open>winScore\<close>, and stays \<^verbatim>\<open>STATE_PLAYING\<close> otherwise.  In
  \<^verbatim>\<open>STATE_PAUSED\<close> the frame changes nothing but the phase, and only when the pause key is
  pressed.  In \<^verbatim>\<open>STATE_GAME_OVER\<close> the frame is the restart (\<^verbatim>\<open>InitGame\<close> in the same
  mode) when R is pressed, changes only the phase to the mode menu when M is pressed, and
  changes nothing otherwise; in particular without a restart the ball, both paddles and
  both scores are the ones before the frame.
\<close>

theorem UpdateGame_win_and_no_physics:
  "(state g = STATE_PLAYING \<and> \<not> key_P_pressed inp \<longrightarrow>
      (\<exists>g'. UpdateGame inp g = Inr g' \<and>
            state g' = (if playerScore g' \<ge> winScore g' \<or> aiScore g' \<ge> winScore g'
                        then STATE_GAME_OVER else STATE_PLAYING))) \<and>
   (state g = STATE_PAUSED \<longrightarrow>
      UpdateGame inp g = Inr (if key_P_pressed inp then g\<lparr> state := STATE_PLAYING \<rparr> else g)) \<and>
   (state g = STATE_GAME_OVER \<longrightarrow>
      UpdateGame inp g =
        Inr (if key_R_pressed inp then InitGame inp g (mode g)
             else if key_M_pressed inp then g\<lparr> state := STATE_MODE_SELECT \<rparr> else g)) \<and>
   ((state g = STATE_PAUSED \<or> state g = STATE_GAME_OVER \<and> \<not> key_R_pressed inp) \<longrightarrow>
      (\<exists>g'. UpdateGame inp g = Inr g' \<and> ball g' = ball g \<and>
            playerPaddle g' = playerPaddle g \<and> aiPaddle g' = aiPaddle g \<and>
            playerScore g' = playerScore g \<and> aiScore g' = aiScore g))"
proof -
  have playing: "\<exists>g'. UpdateGame inp g = Inr g' \<and>
            state g' = (if playerScore g' \<ge> winScore g' \<or> aiScore g' \<ge> winScore g'
                        then STATE_GAME_OVER else STATE_PLAYING)"
    if "state g = STATE_PLAYING" "\<not> key_P_pressed inp"
  proof -
    from UpdateGame_playing[OF that] obtain g1 where
      g1: "UpdateGame inp g = Inr (UpdateGame_ball inp g1)" and st: "state g1 = state g"
      by fastforce
    have "state (UpdateGame_ball inp g1) =
       (if playerScore (UpdateGame_ball inp g1) \<ge> winScore (UpdateGame_ball inp g1) \<or>
           aiScore (UpdateGame_ball inp g1) \<ge> winScore (UpdateGame_ball inp g1)
        then STATE_GAME_OVER else STATE_PLAYING)"
      using UpdateGame_ball_state[of inp g1] st that(1) by simp
    with g1 show ?thesis by blast
  qed
  have paused: "UpdateGame inp g = Inr (if key_P_pressed inp then g\<lparr> state := STATE_PLAYING \<rparr> else g)"
    if "state g = STATE_PAUSED"
    using that by (simp add: UpdateGame_def)
  have over: "UpdateGame inp g =
        Inr (if key_R_pressed inp then InitGame inp g (mode g)
             else if key_M_pressed inp then g\<lparr> state := STATE_MODE_SELECT \<rparr> else g)"
    if "state g = STATE_GAME_OVER"
    using that by (simp add: UpdateGame_def)
  have frame: "\<exists>g'. UpdateGame inp g = Inr g' \<and> ball g' = ball g \<and>
            playerPaddle g' = playerPaddle g \<and> aiPaddle g' = aiPaddle g \<and>
            playerScore g' = playerScore g \<and> aiScore g' = aiScore g"
    if "state g = STATE_PAUSED \<or> state g = STATE_GAME_OVER \<and> \<not> key_R_pressed inp"
    using that paused over by auto
  from playing paused over frame show ?thesis by blast
qed

lemma UpdateGame_ball_scores:
  "playerScore g \<le> playerScore (UpdateGame_ball inp g) \<and>
   aiScore g \<le> aiScore (UpdateGame_ball inp g)"
  by (simp add: UpdateGame_ball_def UpdateGame_scoring_def)

text \<open>
  Three frames: a playing frame that starts with the player's score at the win score ends
  in \<^verbatim>\<open>STATE_GAME_OVER\<close>; an idle paused frame returns the state as it is; in
  \<^verbatim>\<open>STATE_GAME_OVER\<close> the key M changes only the phase.
\<close>

theorem UpdateGame_win_and_no_physics_witness:
  "(state (fresh_match\<lparr> playerScore := 10 \<rparr>) = STATE_PLAYING \<and> \<not> key_P_pressed idle_input \<and>
    (\<exists>g'. UpdateGame idle_input (fresh_match\<lparr> playerScore := 10 \<rparr>) = Inr g' \<and>
          state g' = STATE_GAME_OVER)) \<and>
   (state (fresh_match\<lparr> state := STATE_PAUSED \<rparr>) = STATE_PAUSED \<and>
    UpdateGame idle_input (fresh_match\<lparr> state := STATE_PAUSED \<rparr>) =
      Inr (fresh_match\<lparr> state := STATE_PAUSED \<rparr>)) \<and>
   (state (fresh_match\<lparr> state := STATE_GAME_OVER \<rparr>) = STATE_GAME_OVER \<and>
    UpdateGame (idle_input\<lparr> key_M_pressed := True \<rparr>) (fresh_match\<lparr> state := STATE_GAME_OVER \<rparr>) =
      Inr (fresh_match\<lparr> state := STATE_MODE_SELECT \<rparr>))"
proof -
  let ?g = "fresh_match\<lparr> playerScore := 10 \<rparr>"
  have st: "state ?g = STATE_PLAYING" and np: "\<not> key_P_pressed idle_input"
    by (simp_all add: fresh_match_def InitGame_fields idle_input_def)
  from UpdateGame_win_and_no_physics [of ?g idle_input] st np
  obtain g' where g': "UpdateGame idle_input ?g = Inr g'"
    and s': "state g' = (if playerScore g' \<ge> winScore g' \<or> aiScore g' \<ge> winScore g'
                         then STATE_GAME_OVER else STATE_PLAYING)"
    by blast
  from UpdateGame_playing[OF st np] g' obtain g1 where
    g1: "g' = UpdateGame_ball idle_input g1" and sc: "playerScore g1 = 10" and w: "winScore g1 = 10"
    by (fastforce simp: fresh_match_def InitGame_fields)
  have "playerScore g' \<ge> winScore g'"
    using UpdateGame_ball_scores[of g1 idle_input] sc w by (simp add: g1)
  with s' have "state g' = STATE_GAME_OVER" by simp
  with g' have a: "\<exists>g'. UpdateGame idle_input ?g = Inr g' \<and> state g' = STATE_GAME_OVER"
    by blast
  have b: "UpdateGame idle_input (fresh_match\<lparr> state := STATE_PAUSED \<rparr>) =
      Inr (fresh_match\<lparr> state := STATE_PAUSED \<rparr>)"
    using UpdateGame_win_and_no_physics [of "fresh_match\<lparr> state := STATE_PAUSED \<rparr>" idle_input]
    by (simp add: idle_input_def)
  have c: "UpdateGame (idle_input\<lparr> key_M_pressed := True \<rparr>) (fresh_match\<lparr> state := STATE_GAME_OVER \<rparr>) =
      Inr (fresh_match\<lparr> state := STATE_MODE_SELECT \<rparr>)"
    using UpdateGame_win_and_no_physics
      [of "fresh_match\<lparr> state := STATE_GAME_OVER \<rparr>" "idle_input\<lparr> key_M_pressed := True \<rparr>"]
    by (simp add: idle_input_def)
  from st np a b c show ?thesis by simp
qed

subsection \<open>Paddle bounds\<close>

lemma InitGame_paddles_in_bounds:
  "paddles_in_bounds (InitGame inp g m) \<and>
   rec_height (rect (playerPaddle (InitGame inp g m))) = of_int PADDLE_HEIGHT \<and>
   rec_height (rect (aiPaddle (InitGame inp g m))) = of_int PADDLE_HEIGHT"
  by (simp add: paddles_in_bounds_def InitGame_fields SCREEN_HEIGHT_def PADDLE_HEIGHT_def)

text \<open>
  C3.  Take a \<^verbatim>\<open>STATE_PLAYING\<close> frame in which both paddles have the height 200 that
  \<^verbatim>\<open>InitGame\<close> gives them.  For every input, every ball and either mode, the frame
  returns a state in which each paddle's vertical position lies in [0, 600], that is in
  [0, screen height - paddle height].  When the pause key is pressed the frame moves
  nothing, so the positions are the ones before the frame, which are assumed in bounds;
  otherwise nothing is assumed about the positions before the frame.
\<close>

theorem paddles_stay_on_screen:
  assumes "state g = STATE_PLAYING"
    and "rec_height (rect (playerPaddle g)) = of_int PADDLE_HEIGHT"
    and "rec_height (rect (aiPaddle g)) = of_int PADDLE_HEIGHT"
    and "key_P_pressed inp \<longrightarrow> paddles_in_bounds g"
  shows "\<exists>g'. UpdateGame inp g = Inr g' \<and> paddles_in_bounds g' \<and>
              0 \<le> rec_y (rect (playerPaddle g')) \<and> rec_y (rect (playerPaddle g')) \<le> 600 \<and>
              0 \<le> rec_y (rect (aiPaddle g')) \<and> rec_y (rect (aiPaddle g')) \<le> 600"
proof (cases "key_P_pressed inp")
  case True
  with assms have "UpdateGame inp g = Inr (g\<lparr> state := STATE_PAUSED \<rparr>)"
    by (simp add: UpdateGame_def)
  moreover from True assms have "paddles_in_bounds (g\<lparr> state := STATE_PAUSED \<rparr>)"
    by (simp add: paddles_in_bounds_def)
  ultimately show ?thesis
    using assms(2,3) by (simp add: paddles_in_bounds_def SCREEN_HEIGHT_def PADDLE_HEIGHT_def)
next
  case False
  from UpdateGame_playing[OF assms(1) False] obtain y1 y2 where
    eq: "UpdateGame inp g = Inr (UpdateGame_ball inp
           (g\<lparr> playerPaddle := (playerPaddle g)\<lparr> rect := (rect (playerPaddle g))\<lparr> rec_y :=
                  Clamp y1 0 (of_int SCREEN_HEIGHT - rec_height (rect (playerPaddle g))) \<rparr> \<rparr>,
                aiPaddle := (aiPaddle g)\<lparr> rect := (rect (aiPaddle g))\<lparr> rec_y :=
                  Clamp y2 0 (of_int SCREEN_HEIGHT - rec_height (rect (aiPaddle g))) \<rparr> \<rparr> \<rparr>))"
    by blast
  have c1: "0 \<le> Clamp y1 0 600 \<and> Clamp y1 0 600 \<le> 600"
    by (rule Clamp_range) simp
  have c2: "0 \<le> Clamp y2 0 600 \<and> Clamp y2 0 600 \<le> 600"
    by (rule Clamp_range) simp
  show ?thesis
    unfolding eq using c1 c2 assms(2,3)
    by (simp add: paddles_in_bounds_def SCREEN_HEIGHT_def PADDLE_HEIGHT_def)
qed

text \<open>
  Two frames right after \<^verbatim>\<open>InitGame\<close>: an AI match in which the player holds W, and a
  two-player match in which the pause key is pressed.
\<close>

theorem paddles_stay_on_screen_witness:
  "(state (InitGame idle_input main_initial_game MODE_AI) = STATE_PLAYING \<and>
    (\<exists>g'. UpdateGame (idle_input\<lparr> key_W_down := True \<rparr>)
             (InitGame idle_input main_initial_game MODE_AI) = Inr g' \<and> paddles_in_bounds g')) \<and>
   (key_P_pressed (idle_input\<lparr> key_P_pressed := True \<rparr>) \<and> paddles_in_bounds fresh_match \<and>
    (\<exists>g'. UpdateGame (idle_input\<lparr> key_P_pressed := True \<rparr>) fresh_match = Inr g' \<and>
          paddles_in_bounds g'))"
proof -
  let ?g = "InitGame idle_input main_initial_game MODE_AI"
  let ?w = "idle_input\<lparr> key_W_down := True \<rparr>"
  let ?p = "idle_input\<lparr> key_P_pressed := True \<rparr>"
  have g: "state ?g = STATE_PLAYING"
    "rec_height (rect (playerPaddle ?g)) = of_int PADDLE_HEIGHT"
    "rec_height (rect (aiPaddle ?g)) = of_int PADDLE_HEIGHT"
    "key_P_pressed ?w \<longrightarrow> paddles_in_bounds ?g"
    by (simp_all add: InitGame_fields PADDLE_HEIGHT_def idle_input_def)
  have f: "state fresh_match = STATE_PLAYING"
    "rec_height (rect (playerPaddle fresh_match)) = of_int PADDLE_HEIGHT"
    "rec_height (rect (aiPaddle fresh_match)) = of_int PADDLE_HEIGHT"
    "paddles_in_bounds fresh_match" "key_P_pressed ?p"
    using InitGame_paddles_in_bounds [of idle_input main_initial_game MODE_MULTIPLAYER]
    by (simp_all add: fresh_match_def InitGame_fields)
  from paddles_stay_on_screen [of ?g ?w, OF g]
       paddles_stay_on_screen [of fresh_match ?p, OF f(1,2,3)] f(4,5) g(1)
  show ?thesis by blast
qed

subsection \<open>The hit offset\<close>

text \<open>
  C5, evaluated at a failing input.  The player's paddle is at its initial place (y from
  300 to 500, vertical centre 400) and the ball, moving left with velocity (-8, 0), has
  its centre at (52, 515), 15 below the lower end of the paddle.  The extended hit box of
  \<^verbatim>\<open>CheckPaddleCollision\<close> reaches one ball radius beyond each end of the paddle, so the
  ball is accepted as a hit.  The offset (515 - 400) / 100 = 1.15 is used as it is: it
  is outside [-1, 1], and outside the range -0.5 to 0.5 that the comment in front of the
  computation (main.c 754 and 775) gives for it.
\<close>

theorem hit_offset_exceeds_one:
  "CheckPaddleCollision (ball_at 52 515 (- 8) 0) (playerPaddle fresh_match) \<and>
   hitPositionOf (ball_at 52 515 (- 8) 0) (playerPaddle fresh_match) = 115 / 100 \<and>
   \<not> hitPositionOf (ball_at 52 515 (- 8) 0) (playerPaddle fresh_match) \<le> 1 \<and>
   \<not> hitPositionOf (ball_at 52 515 (- 8) 0) (playerPaddle fresh_match) \<le> 1 / 2"
  by (simp add: CheckPaddleCollision_def CheckCollisionPointRec_def Let_def ball_at_def
      hitPositionOf_def fresh_match_def InitGame_fields game_constants)

subsection \<open>Horizontal speed\<close>

lemma UpdateGame_player_hit_vx:
  "vec_x (velocity (ball (UpdateGame_player_hit inp g))) =
     (if CheckPaddleCollision (ball g) (playerPaddle g)
      then min (\<bar>vec_x (velocity (ball g))\<bar> + SPEED_INCREMENT) (MAX_BALL_SPEED * ballSpeedMultiplier g)
      else vec_x (velocity (ball g)))"
  by (simp add: UpdateGame_player_hit_def Let_def)

lemma UpdateGame_ai_hit_vx:
  "vec_x (velocity (ball (UpdateGame_ai_hit inp g))) =
     (if CheckPaddleCollision (ball g) (aiPaddle g)
      then - min (\<bar>vec_x (velocity (ball g))\<bar> + SPEED_INCREMENT) (MAX_BALL_SPEED * ballSpeedMultiplier g)
      else vec_x (velocity (ball g)))"
  by (simp add: UpdateGame_ai_hit_def Let_def)



subsection \<open>The ball through the blocks of a playing frame\<close>

lemma UpdateGame_move_ball_ball:
  "ball (UpdateGame_move_ball g) =
     (ball g)\<lparr> position := \<lparr> vec_x = vec_x (position (ball g)) + vec_x (velocity (ball g)),
                              vec_y = vec_y (position (ball g)) + vec_y (velocity (ball g)) \<rparr> \<rparr>"
  by (simp add: UpdateGame_move_ball_def)

lemma UpdateGame_walls_no_cross:
  "\<not> (vec_y (position (ball g)) - radius (ball g) \<le> 0 \<or>
      vec_y (position (ball g)) + radius (ball g) \<ge> of_int SCREEN_HEIGHT) \<Longrightarrow>
   UpdateGame_walls g = g"
  by (simp add: UpdateGame_walls_def Let_def)

lemma UpdateGame_walls_cross:
  assumes "vec_y (position (ball g)) - radius (ball g) \<le> 0 \<or>
           vec_y (position (ball g)) + radius (ball g) \<ge> of_int SCREEN_HEIGHT"
    and "radius (ball g) = of_int BALL_RADIUS"
  shows "vec_y (velocity (ball (UpdateGame_walls g))) = - vec_y (velocity (ball g)) \<and>
         radius (ball g) \<le> vec_y (position (ball (UpdateGame_walls g))) \<and>
         vec_y (position (ball (UpdateGame_walls g))) \<le> of_int SCREEN_HEIGHT - radius (ball g) \<and>
         vec_y (position (ball (UpdateGame_walls g))) =
           (if vec_y (position (ball g)) < 20 then 22
            else if vec_y (position (ball g)) > 780 then 778
            else vec_y (position (ball g)))"
  using assms
  by (simp add: UpdateGame_walls_def Let_def BALL_RADIUS_def SCREEN_HEIGHT_def
      WALL_BOUNCE_BUFFER_def)

lemma UpdateGame_walls_keeps [simp]:
  "vec_x (velocity (ball (UpdateGame_walls g))) = vec_x (velocity (ball g))"
  "vec_x (position (ball (UpdateGame_walls g))) = vec_x (position (ball g))"
  "radius (ball (UpdateGame_walls g)) = radius (ball g)"
  by (simp_all add: UpdateGame_walls_def Let_def)

lemma UpdateGame_hit_keeps [simp]:
  "position (ball (UpdateGame_player_hit inp g)) = position (ball g)"
  "position (ball (UpdateGame_ai_hit inp g)) = position (ball g)"
  "radius (ball (UpdateGame_player_hit inp g)) = radius (ball g)"
  "radius (ball (UpdateGame_ai_hit inp g)) = radius (ball g)"
  by (simp_all add: UpdateGame_player_hit_def UpdateGame_ai_hit_def Let_def)

lemma UpdateGame_hit_miss:
  "\<not> CheckPaddleCollision (ball g) (playerPaddle g) \<Longrightarrow> UpdateGame_player_hit inp g = g"
  "\<not> CheckPaddleCollision (ball g) (aiPaddle g) \<Longrightarrow> UpdateGame_ai_hit inp g = g"
  by (simp_all add: UpdateGame_player_hit_def UpdateGame_ai_hit_def)

lemma UpdateGame_scoring_ball:
  "ball (UpdateGame_scoring inp g) =
     (if vec_x (position (ball g)) < - 20 then
        (ball g)\<lparr> position := \<lparr> vec_x = 640, vec_y = 400 \<rparr>,
                  velocity := \<lparr> vec_x = - (8 * ballSpeedMultiplier g),
                                 vec_y = of_int (GetRandomValue (-100) 100 (rand_serve inp)) / 100 *
                                         (8 * ballSpeedMultiplier g) \<rparr> \<rparr>
      else if vec_x (position (ball g)) > 1300 then
        (ball g)\<lparr> position := \<lparr> vec_x = 640, vec_y = 400 \<rparr>,
                  velocity := \<lparr> vec_x = 8 * ballSpeedMultiplier g,
                                 vec_y = of_int (GetRandomValue (-100) 100 (rand_serve inp)) / 100 *
                                         (8 * ballSpeedMultiplier g) \<rparr> \<rparr>
      else ball g)"
  by (simp add: UpdateGame_scoring_def ResetBall_ball game_constants)

lemma UpdateGame_ball_ball:
  "ball (UpdateGame_ball inp g) =
     ball (UpdateGame_scoring inp (UpdateGame_ai_hit inp (UpdateGame_player_hit inp
       (UpdateGame_walls (UpdateGame_move_ball g)))))"
  by (simp add: UpdateGame_ball_def)

subsection \<open>The speed cap as an invariant\<close>

text \<open>
  With a non-negative multiplier, \<^verbatim>\<open>InitGame\<close> serves within the cap, and the ball part
  of a playing frame keeps the horizontal speed within the cap.
\<close>

lemma InitGame_speed_within_cap:
  "0 \<le> ballSpeedMultiplier g \<Longrightarrow>
   \<bar>vec_x (velocity (ball (InitGame inp g m)))\<bar>
     \<le> MAX_BALL_SPEED * ballSpeedMultiplier (InitGame inp g m)"
  by (simp add: InitGame_fields MAX_BALL_SPEED_def)

lemma UpdateGame_ball_speed_within_cap:
  assumes "0 \<le> ballSpeedMultiplier g"
    and "\<bar>vec_x (velocity (ball g))\<bar> \<le> MAX_BALL_SPEED * ballSpeedMultiplier g"
  shows "\<bar>vec_x (velocity (ball (UpdateGame_ball inp g)))\<bar>
           \<le> MAX_BALL_SPEED * ballSpeedMultiplier (UpdateGame_ball inp g)"
proof -
  let ?w = "UpdateGame_walls (UpdateGame_move_ball g)"
  let ?p = "UpdateGame_player_hit inp ?w"
  let ?a = "UpdateGame_ai_hit inp ?p"
  have w: "\<bar>vec_x (velocity (ball ?w))\<bar> \<le> 15 * ballSpeedMultiplier g"
    using assms(2) by (simp add: UpdateGame_move_ball_ball MAX_BALL_SPEED_def)
  have p: "\<bar>vec_x (velocity (ball ?p))\<bar> \<le> 15 * ballSpeedMultiplier g"
    using w assms(1)
    by (simp add: UpdateGame_player_hit_vx MAX_BALL_SPEED_def SPEED_INCREMENT_def min_def)
  have a: "\<bar>vec_x (velocity (ball ?a))\<bar> \<le> 15 * ballSpeedMultiplier g"
    using p assms(1)
    by (simp add: UpdateGame_ai_hit_vx MAX_BALL_SPEED_def SPEED_INCREMENT_def min_def)
  show ?thesis
    using a assms(1)
    by (simp add: UpdateGame_ball_ball UpdateGame_scoring_ball MAX_BALL_SPEED_def)
qed

text \<open>
  The invariant can be broken from the mode menu: when key 2 is pressed in a frame in
  which the speed slider is being dragged, \<^verbatim>\<open>UpdateModeSelect\<close> first starts the match
  with the old multiplier (here 2, serve speed 16) and then lowers the multiplier to
  the slider's value (here 0.5, cap 7.5).
\<close>

lemma started_while_dragging_eq:
  "started_while_dragging =
     (InitGame key2_and_drag_input menu_at_double_speed MODE_MULTIPLAYER)
       \<lparr> ballSpeedMultiplier := 1 / 2 \<rparr>"
  by (simp add: started_while_dragging_def UpdateModeSelect_def key2_and_drag_input_def
      idle_input_def Let_def CheckCollisionPointRec_def sliderHitArea_def sliderBg_def
      zero_vector_def Clamp_def roundf_def game_constants)

lemma UpdateModeSelect_key_and_drag:
  "state started_while_dragging = STATE_PLAYING \<and>
   mode started_while_dragging = MODE_MULTIPLAYER \<and>
   ball started_while_dragging = ball_at 640 400 16 0 \<and>
   ballSpeedMultiplier started_while_dragging = 1 / 2 \<and>
   playerScore started_while_dragging = 0 \<and> aiScore started_while_dragging = 0 \<and>
   winScore started_while_dragging = 10 \<and>
   playerPaddle started_while_dragging =
      \<lparr> rect = \<lparr> rec_x = 10, rec_y = 300, rec_width = 25, rec_height = 200 \<rparr>,
        speed = 12, paddle_color = COLOR_PLAYER_ONE \<rparr> \<and>
   aiPaddle started_while_dragging =
      \<lparr> rect = \<lparr> rec_x = 1245, rec_y = 300, rec_width = 25, rec_height = 200 \<rparr>,
        speed = 12, paddle_color = COLOR_PLAYER_TWO \<rparr>"
  by (simp add: started_while_dragging_eq InitGame_fields menu_at_double_speed_def
      main_initial_game_def zero_vector_def ball_at_def key2_and_drag_input_def
      GetRandomValue_def BALL_RADIUS_def)


subsection \<open>Wall bounce\<close>

lemma UpdateGame_player_hit_ball:
  "ball (UpdateGame_player_hit inp g) =
     (if CheckPaddleCollision (ball g) (playerPaddle g) then
        (ball g)\<lparr> velocity :=
          \<lparr> vec_x = min (\<bar>vec_x (velocity (ball g))\<bar> + SPEED_INCREMENT)
                        (MAX_BALL_SPEED * ballSpeedMultiplier g),
            vec_y = hitPositionOf (ball g) (playerPaddle g) *
                    (min (\<bar>vec_x (velocity (ball g))\<bar> + SPEED_INCREMENT)
                         (MAX_BALL_SPEED * ballSpeedMultiplier g) * (75 / 100)) \<rparr> \<rparr>
      else ball g)"
  by (simp add: UpdateGame_player_hit_def Let_def)

lemma UpdateGame_ball_position_y:
  "vec_y (position (ball (UpdateGame_ball inp g))) = 400 \<or>
   vec_y (position (ball (UpdateGame_ball inp g))) =
     vec_y (position (ball (UpdateGame_walls (UpdateGame_move_ball g))))"
  by (simp add: UpdateGame_ball_ball UpdateGame_scoring_ball)

lemma UpdateGame_ball_no_event:
  assumes "\<not> CheckPaddleCollision (ball (UpdateGame_walls (UpdateGame_move_ball g))) (playerPaddle g)"
    and "\<not> CheckPaddleCollision (ball (UpdateGame_walls (UpdateGame_move_ball g))) (aiPaddle g)"
    and "- 20 \<le> vec_x (position (ball (UpdateGame_walls (UpdateGame_move_ball g))))"
    and "vec_x (position (ball (UpdateGame_walls (UpdateGame_move_ball g)))) \<le> 1300"
  shows "ball (UpdateGame_ball inp g) = ball (UpdateGame_walls (UpdateGame_move_ball g))"
proof -
  let ?w = "UpdateGame_walls (UpdateGame_move_ball g)"
  have p: "UpdateGame_player_hit inp ?w = ?w"
    using assms(1) by (intro UpdateGame_hit_miss) simp
  have a: "UpdateGame_ai_hit inp ?w = ?w"
    using assms(2) by (intro UpdateGame_hit_miss) simp
  show ?thesis
    using assms(3,4) unfolding UpdateGame_ball_ball p a
    by (simp add: UpdateGame_scoring_ball)
qed

lemma UpdateGame_playing_paddles:
  assumes "state g = STATE_PLAYING" "\<not> key_P_pressed inp"
  shows "\<exists>y1 y2. UpdateGame inp g = Inr (UpdateGame_ball inp (set_paddle_y g y1 y2))"
  using UpdateGame_playing[OF assms] unfolding set_paddle_y_def by blast

text \<open>
  C4, amended.  Take a \<^verbatim>\<open>STATE_PLAYING\<close> frame (pause key not pressed, ball radius 20) in
  which the moved ball reaches the top or bottom boundary:
  \<open>y + vy - radius \<le> 0\<close> or \<open>y + vy + radius \<ge> 800\<close>.  The frame is the ball part run
  on the state with the paddles moved (to some heights \<open>y1\<close>, \<open>y2\<close>).  The wall block
  negates the vertical velocity exactly once and leaves the ball's height in [20, 780];
  the height at the end of the frame is in [20, 780] as well.  The vertical velocity at
  the end of the frame is the negated one when no paddle is hit and no point is scored
  in the frame (a paddle hit in the same frame sets the vertical velocity from the hit
  offset, a point re-serves the ball).
\<close>

theorem wall_bounce:
  assumes "state g = STATE_PLAYING" and "\<not> key_P_pressed inp"
    and "radius (ball g) = of_int BALL_RADIUS"
    and "vec_y (position (ball g)) + vec_y (velocity (ball g)) - radius (ball g) \<le> 0 \<or>
         vec_y (position (ball g)) + vec_y (velocity (ball g)) + radius (ball g) \<ge> of_int SCREEN_HEIGHT"
  shows "\<exists>y1 y2.
           UpdateGame inp g = Inr (UpdateGame_ball inp (set_paddle_y g y1 y2)) \<and>
           vec_y (velocity (ball (UpdateGame_walls (UpdateGame_move_ball (set_paddle_y g y1 y2))))) =
             - vec_y (velocity (ball g)) \<and>
           20 \<le> vec_y (position (ball (UpdateGame_walls (UpdateGame_move_ball (set_paddle_y g y1 y2))))) \<and>
           vec_y (position (ball (UpdateGame_walls (UpdateGame_move_ball (set_paddle_y g y1 y2))))) \<le> 780 \<and>
           20 \<le> vec_y (position (ball (UpdateGame_ball inp (set_paddle_y g y1 y2)))) \<and>
           vec_y (position (ball (UpdateGame_ball inp (set_paddle_y g y1 y2)))) \<le> 780 \<and>
           (\<not> CheckPaddleCollision
                (ball (UpdateGame_walls (UpdateGame_move_ball (set_paddle_y g y1 y2))))
                (playerPaddle (set_paddle_y g y1 y2)) \<and>
            \<not> CheckPaddleCollision
                (ball (UpdateGame_walls (UpdateGame_move_ball (set_paddle_y g y1 y2))))
                (aiPaddle (set_paddle_y g y1 y2)) \<and>
            - 20 \<le> vec_x (position (ball g)) + vec_x (velocity (ball g)) \<and>
            vec_x (position (ball g)) + vec_x (velocity (ball g)) \<le> 1300 \<longrightarrow>
            vec_y (velocity (ball (UpdateGame_ball inp (set_paddle_y g y1 y2)))) =
              - vec_y (velocity (ball g)))"
proof -
  from UpdateGame_playing_paddles[OF assms(1,2)] obtain y1 y2 where
    eq: "UpdateGame inp g = Inr (UpdateGame_ball inp (set_paddle_y g y1 y2))"
    by blast
  let ?g1 = "set_paddle_y g y1 y2"
  have b: "ball ?g1 = ball g" by (simp add: set_paddle_y_def)
  let ?m = "UpdateGame_move_ball ?g1"
  let ?w = "UpdateGame_walls ?m"
  have cross: "vec_y (position (ball ?m)) - radius (ball ?m) \<le> 0 \<or>
               vec_y (position (ball ?m)) + radius (ball ?m) \<ge> of_int SCREEN_HEIGHT"
    using assms(4) by (simp add: UpdateGame_move_ball_ball b)
  have rad: "radius (ball ?m) = of_int BALL_RADIUS"
    using assms(3) by (simp add: UpdateGame_move_ball_ball b)
  from UpdateGame_walls_cross[OF cross rad]
  have w: "vec_y (velocity (ball ?w)) = - vec_y (velocity (ball g))"
    "20 \<le> vec_y (position (ball ?w))" "vec_y (position (ball ?w)) \<le> 780"
    using rad by (simp_all add: UpdateGame_move_ball_ball b BALL_RADIUS_def SCREEN_HEIGHT_def)
  have wx: "vec_x (position (ball ?w)) = vec_x (position (ball g)) + vec_x (velocity (ball g))"
    by (simp add: UpdateGame_move_ball_ball b)
  have fin: "20 \<le> vec_y (position (ball (UpdateGame_ball inp ?g1)))"
            "vec_y (position (ball (UpdateGame_ball inp ?g1))) \<le> 780"
    using UpdateGame_ball_position_y[of inp ?g1] w(2,3) by auto
  have quiet: "vec_y (velocity (ball (UpdateGame_ball inp ?g1))) = - vec_y (velocity (ball g))"
    if "\<not> CheckPaddleCollision (ball ?w) (playerPaddle ?g1)"
       "\<not> CheckPaddleCollision (ball ?w) (aiPaddle ?g1)"
       "- 20 \<le> vec_x (position (ball g)) + vec_x (velocity (ball g))"
       "vec_x (position (ball g)) + vec_x (velocity (ball g)) \<le> 1300"
  proof -
    from that(3,4) have "- 20 \<le> vec_x (position (ball ?w))" "vec_x (position (ball ?w)) \<le> 1300"
      unfolding wx by simp_all
    from UpdateGame_ball_no_event[OF that(1,2) this, of inp] w(1) show ?thesis by simp
  qed
  show ?thesis
    apply (rule exI[of _ y1], rule exI[of _ y2])
    using eq w fin quiet by blast
qed

text \<open>
  The scenario of the claim, in mid-field: velocity (-8, 3), height 795, radius 20.  The
  frame ends with the vertical velocity -3 and the height 778.
\<close>

theorem wall_bounce_witness:
  "state (fresh_match\<lparr> ball := ball_at 640 795 (- 8) 3 \<rparr>) = STATE_PLAYING \<and>
   \<not> key_P_pressed idle_input \<and>
   radius (ball (fresh_match\<lparr> ball := ball_at 640 795 (- 8) 3 \<rparr>)) = of_int BALL_RADIUS \<and>
   vec_y (position (ball (fresh_match\<lparr> ball := ball_at 640 795 (- 8) 3 \<rparr>))) +
     vec_y (velocity (ball (fresh_match\<lparr> ball := ball_at 640 795 (- 8) 3 \<rparr>))) +
     radius (ball (fresh_match\<lparr> ball := ball_at 640 795 (- 8) 3 \<rparr>)) \<ge> of_int SCREEN_HEIGHT \<and>
   (\<exists>g'. UpdateGame idle_input (fresh_match\<lparr> ball := ball_at 640 795 (- 8) 3 \<rparr>) = Inr g' \<and>
          vec_y (velocity (ball g')) = - 3 \<and> vec_y (position (ball g')) = 778)"
proof -
  let ?g = "fresh_match\<lparr> ball := ball_at 640 795 (- 8) 3 \<rparr>"
  have h: "state ?g = STATE_PLAYING" "\<not> key_P_pressed idle_input"
    "radius (ball ?g) = of_int BALL_RADIUS"
    by (simp_all add: fresh_match_def InitGame_fields idle_input_def ball_at_def)
  have c: "vec_y (position (ball ?g)) + vec_y (velocity (ball ?g)) + radius (ball ?g)
             \<ge> of_int SCREEN_HEIGHT"
    by (simp add: ball_at_def game_constants)
  then have c': "vec_y (position (ball ?g)) + vec_y (velocity (ball ?g)) - radius (ball ?g) \<le> 0 \<or>
         vec_y (position (ball ?g)) + vec_y (velocity (ball ?g)) + radius (ball ?g) \<ge> of_int SCREEN_HEIGHT"
    by simp
  from wall_bounce[OF h c'] obtain y1 y2 where
    eq: "UpdateGame idle_input ?g = Inr (UpdateGame_ball idle_input (set_paddle_y ?g y1 y2))"
    and quiet: "\<not> CheckPaddleCollision
                (ball (UpdateGame_walls (UpdateGame_move_ball (set_paddle_y ?g y1 y2))))
                (playerPaddle (set_paddle_y ?g y1 y2)) \<and>
            \<not> CheckPaddleCollision
                (ball (UpdateGame_walls (UpdateGame_move_ball (set_paddle_y ?g y1 y2))))
                (aiPaddle (set_paddle_y ?g y1 y2)) \<and>
            - 20 \<le> vec_x (position (ball ?g)) + vec_x (velocity (ball ?g)) \<and>
            vec_x (position (ball ?g)) + vec_x (velocity (ball ?g)) \<le> 1300 \<longrightarrow>
            vec_y (velocity (ball (UpdateGame_ball idle_input (set_paddle_y ?g y1 y2)))) =
              - vec_y (velocity (ball ?g))"
    by blast
  let ?g1 = "set_paddle_y ?g y1 y2"
  let ?m = "UpdateGame_move_ball ?g1"
  let ?w = "UpdateGame_walls ?m"
  have m: "ball ?m = ball_at 632 798 (- 8) 3"
    by (simp add: UpdateGame_move_ball_ball set_paddle_y_def ball_at_def)
  have w: "ball ?w = ball_at 632 778 (- 8) (- 3)"
    unfolding UpdateGame_walls_def Let_def m by (simp add: ball_at_def game_constants)
  have pp: "playerPaddle ?g1 =
      \<lparr> rect = \<lparr> rec_x = 10, rec_y = y1, rec_width = 25, rec_height = 200 \<rparr>,
        speed = 12, paddle_color = COLOR_PLAYER_ONE \<rparr>"
    "aiPaddle ?g1 =
      \<lparr> rect = \<lparr> rec_x = 1245, rec_y = y2, rec_width = 25, rec_height = 200 \<rparr>,
        speed = 12, paddle_color = COLOR_PLAYER_TWO \<rparr>"
    by (simp_all add: set_paddle_y_def fresh_match_def InitGame_fields)
  have miss1: "\<not> CheckPaddleCollision (ball ?w) (playerPaddle ?g1)"
    unfolding w pp
    by (simp add: CheckPaddleCollision_def CheckCollisionPointRec_def CheckCollisionCircleRec_def
        Let_def ball_at_def game_constants)
  have miss2: "\<not> CheckPaddleCollision (ball ?w) (aiPaddle ?g1)"
    unfolding w pp
    by (simp add: CheckPaddleCollision_def Let_def ball_at_def game_constants)
  have inside: "- 20 \<le> vec_x (position (ball ?g)) + vec_x (velocity (ball ?g))"
    "vec_x (position (ball ?g)) + vec_x (velocity (ball ?g)) \<le> 1300"
    by (simp_all add: ball_at_def)
  from quiet miss1 miss2 inside
  have vy: "vec_y (velocity (ball (UpdateGame_ball idle_input ?g1))) = - 3"
    by (simp add: ball_at_def)
  have wx: "- 20 \<le> vec_x (position (ball ?w))" "vec_x (position (ball ?w)) \<le> 1300"
    unfolding w by (simp_all add: ball_at_def)
  have "ball (UpdateGame_ball idle_input ?g1) = ball ?w"
    by (rule UpdateGame_ball_no_event[OF miss1 miss2 wx])
  then have py: "vec_y (position (ball (UpdateGame_ball idle_input ?g1))) = 778"
    unfolding w by (simp add: ball_at_def)
  from h c eq vy py show ?thesis by blast
qed

text \<open>
  C4 as stated fails: in \<open>corner_game\<close> the ball (velocity (-8, 6), height 775) reaches the
  bottom boundary in front of the player's paddle.  The wall block negates the vertical
  velocity, the paddle hit of the same frame then sets it to 0.78 * 8.2 * 0.75 = 4.797:
  at the end of the frame the vertical velocity is positive as before, not flipped.
\<close>

theorem wall_bounce_overridden_by_hit:
  "UpdateGame idle_input corner_game = Inr (UpdateGame_ball idle_input corner_game) \<and>
   vec_y (position (ball corner_game)) + vec_y (velocity (ball corner_game)) +
     radius (ball corner_game) \<ge> of_int SCREEN_HEIGHT \<and>
   vec_y (velocity (ball corner_game)) = 6 \<and>
   vec_y (velocity (ball (UpdateGame_ball idle_input corner_game))) = 4797 / 1000"
proof -
  let ?m = "UpdateGame_move_ball corner_game"
  let ?w = "UpdateGame_walls ?m"
  let ?p = "UpdateGame_player_hit idle_input ?w"
  have pads: "playerPaddle corner_game =
      \<lparr> rect = \<lparr> rec_x = 10, rec_y = 600, rec_width = 25, rec_height = 200 \<rparr>,
        speed = 12, paddle_color = COLOR_PLAYER_ONE \<rparr>"
    "aiPaddle corner_game =
      \<lparr> rect = \<lparr> rec_x = 1245, rec_y = 300, rec_width = 25, rec_height = 200 \<rparr>,
        speed = 12, paddle_color = COLOR_PLAYER_TWO \<rparr>"
    "ballSpeedMultiplier corner_game = 1"
    "state corner_game = STATE_PLAYING" "mode corner_game = MODE_MULTIPLAYER"
    "ball corner_game = ball_at 60 775 (- 8) 6"
    by (simp_all add: corner_game_def fresh_match_def InitGame_fields main_initial_game_def)
  have tick: "UpdateGame idle_input corner_game = Inr (UpdateGame_ball idle_input corner_game)"
  proof -
    have 1: "UpdateGame_player idle_input corner_game = corner_game"
      by (simp add: UpdateGame_player_def Let_def pads idle_input_def Clamp_def SCREEN_HEIGHT_def)
    have 2: "UpdateGame_second idle_input corner_game = Inr corner_game"
      by (simp add: UpdateGame_second_def Let_def pads idle_input_def Clamp_def SCREEN_HEIGHT_def)
    show ?thesis
      by (simp add: UpdateGame_def pads 1 2) (simp add: idle_input_def)
  qed
  have m: "ball ?m = ball_at 52 781 (- 8) 6"
    by (simp add: UpdateGame_move_ball_ball pads ball_at_def)
  have w: "ball ?w = ball_at 52 778 (- 8) (- 6)"
    by (simp add: UpdateGame_walls_def Let_def m ball_at_def game_constants)
  have hit: "CheckPaddleCollision (ball ?w) (playerPaddle ?w)"
    by (simp add: w pads CheckPaddleCollision_def CheckCollisionPointRec_def Let_def
        ball_at_def game_constants)
  have p: "ball ?p = ball_at 52 778 (82 / 10) (4797 / 1000)"
    using hit
    by (simp add: UpdateGame_player_hit_ball w pads ball_at_def hitPositionOf_def
        MAX_BALL_SPEED_def SPEED_INCREMENT_def)
  have miss: "\<not> CheckPaddleCollision (ball ?p) (aiPaddle ?p)"
    by (simp add: p pads CheckPaddleCollision_def CheckCollisionPointRec_def
        CheckCollisionCircleRec_def Let_def ball_at_def game_constants)
  have a: "UpdateGame_ai_hit idle_input ?p = ?p"
    using miss by (rule UpdateGame_hit_miss)
  have fin: "vec_y (velocity (ball (UpdateGame_ball idle_input corner_game))) = 4797 / 1000"
    by (simp add: UpdateGame_ball_ball a UpdateGame_scoring_ball p ball_at_def)
  from tick fin show ?thesis by (simp add: pads ball_at_def game_constants)
qed

section \<open>Sequences of frames\<close>

text \<open>
  From \<^verbatim>\<open>InitGame\<close> onward, every sequence of frames runs without error and keeps both
  paddles of height 200 within [0, 600].
\<close>

lemma UpdateGame_keeps_paddle_bounds:
  assumes "paddles_in_bounds g"
    and "rec_height (rect (playerPaddle g)) = of_int PADDLE_HEIGHT"
    and "rec_height (rect (aiPaddle g)) = of_int PADDLE_HEIGHT"
  shows "\<exists>g'. UpdateGame inp g = Inr g' \<and> paddles_in_bounds g' \<and>
              rec_height (rect (playerPaddle g')) = of_int PADDLE_HEIGHT \<and>
              rec_height (rect (aiPaddle g')) = of_int PADDLE_HEIGHT"
proof (cases "state g = STATE_PLAYING \<and> \<not> key_P_pressed inp")
  case True
  then have st: "state g = STATE_PLAYING" and np: "\<not> key_P_pressed inp" by simp_all
  from UpdateGame_playing[OF st np] obtain y1 y2 where
    eq: "UpdateGame inp g = Inr (UpdateGame_ball inp
           (g\<lparr> playerPaddle := (playerPaddle g)\<lparr> rect := (rect (playerPaddle g))\<lparr> rec_y :=
                  Clamp y1 0 (of_int SCREEN_HEIGHT - rec_height (rect (playerPaddle g))) \<rparr> \<rparr>,
                aiPaddle := (aiPaddle g)\<lparr> rect := (rect (aiPaddle g))\<lparr> rec_y :=
                  Clamp y2 0 (of_int SCREEN_HEIGHT - rec_height (rect (aiPaddle g))) \<rparr> \<rparr> \<rparr>))"
    by blast
  have c1: "0 \<le> Clamp y1 0 600 \<and> Clamp y1 0 600 \<le> 600"
    by (rule Clamp_range) simp
  have c2: "0 \<le> Clamp y2 0 600 \<and> Clamp y2 0 600 \<le> 600"
    by (rule Clamp_range) simp
  show ?thesis
    unfolding eq using c1 c2 assms(2,3)
    by (simp add: paddles_in_bounds_def SCREEN_HEIGHT_def PADDLE_HEIGHT_def)
next
  case False
  show ?thesis
  proof (cases "state g = STATE_GAME_OVER \<and> key_R_pressed inp")
    case True
    then have "UpdateGame inp g = Inr (InitGame inp g (mode g))"
      by (simp add: UpdateGame_def)
    with InitGame_paddles_in_bounds[of inp g "mode g"] show ?thesis by simp
  next
    case nr: False
    with False assms show ?thesis
      by (cases "state g") (auto simp: UpdateGame_def paddles_in_bounds_def)
  qed
qed

lemma run_frames_keeps_paddle_bounds:
  assumes "paddles_in_bounds g"
    and "rec_height (rect (playerPaddle g)) = of_int PADDLE_HEIGHT"
    and "rec_height (rect (aiPaddle g)) = of_int PADDLE_HEIGHT"
  shows "\<exists>g'. run_frames inps g = Inr g' \<and> paddles_in_bounds g'"
  using assms
proof (induction inps arbitrary: g)
  case Nil
  then show ?case by simp
next
  case (Cons inp inps)
  from UpdateGame_keeps_paddle_bounds[OF Cons.prems, of inp] obtain g1 where
    g1: "UpdateGame inp g = Inr g1" "paddles_in_bounds g1"
      "rec_height (rect (playerPaddle g1)) = of_int PADDLE_HEIGHT"
      "rec_height (rect (aiPaddle g1)) = of_int PADDLE_HEIGHT"
    by blast
  from Cons.IH[OF g1(2,3,4)] g1(1) show ?case by simp
qed

lemma paddles_in_bounds_all_frames:
  "\<exists>g'. run_frames inps (InitGame inp g m) = Inr g' \<and> paddles_in_bounds g'"
  using InitGame_paddles_in_bounds[of inp g m] by (intro run_frames_keeps_paddle_bounds) simp_all

subsection \<open>A match started while the slider is dragged\<close>

text \<open>
  An idle two-player frame with the paddles at their initial places and the ball flying
  horizontally at height 400 with speed 16, not yet within reach of the right paddle:
  the frame only advances the ball.
\<close>

lemma UpdateGame_flying:
  assumes "state g = STATE_PLAYING" "mode g = MODE_MULTIPLAYER"
    and "playerPaddle g =
      \<lparr> rect = \<lparr> rec_x = 10, rec_y = 300, rec_width = 25, rec_height = 200 \<rparr>,
        speed = 12, paddle_color = COLOR_PLAYER_ONE \<rparr>"
    and "aiPaddle g =
      \<lparr> rect = \<lparr> rec_x = 1245, rec_y = 300, rec_width = 25, rec_height = 200 \<rparr>,
        speed = 12, paddle_color = COLOR_PLAYER_TWO \<rparr>"
    and "ball g = ball_at x 400 16 0" "640 \<le> x" "x + 16 < 1205"
    and "playerScore g = 0" "aiScore g = 0" "winScore g = 10"
  shows "UpdateGame idle_input g = Inr (g\<lparr> ball := ball_at (x + 16) 400 16 0 \<rparr>)"
proof -
  have 1: "UpdateGame_player idle_input g = g"
    by (simp add: UpdateGame_player_def Let_def assms idle_input_def Clamp_def SCREEN_HEIGHT_def)
  have 2: "UpdateGame_second idle_input g = Inr g"
    by (simp add: UpdateGame_second_def Let_def assms idle_input_def Clamp_def SCREEN_HEIGHT_def)
  have tick: "UpdateGame idle_input g = Inr (UpdateGame_ball idle_input g)"
    by (simp add: UpdateGame_def assms(1) 1 2) (simp add: idle_input_def)
  let ?m = "g\<lparr> ball := ball_at (x + 16) 400 16 0 \<rparr>"
  have m: "UpdateGame_move_ball g = ?m"
    by (simp add: UpdateGame_move_ball_def assms(5) ball_at_def)
  have w: "UpdateGame_walls ?m = ?m"
    by (rule UpdateGame_walls_no_cross) (simp add: ball_at_def game_constants)
  have p: "UpdateGame_player_hit idle_input ?m = ?m"
    by (rule UpdateGame_hit_miss)
       (simp add: assms(3) CheckPaddleCollision_def Let_def ball_at_def game_constants)
  have a: "UpdateGame_ai_hit idle_input ?m = ?m"
    using assms(6,7)
    by (intro UpdateGame_hit_miss)
       (simp add: assms(4) CheckPaddleCollision_def CheckCollisionPointRec_def
         CheckCollisionCircleRec_def Let_def ball_at_def game_constants)
  have s: "UpdateGame_scoring idle_input ?m = ?m"
    using assms(6,7) by (simp add: UpdateGame_scoring_def ball_at_def game_constants)
  have o: "UpdateGame_game_over ?m = ?m"
    by (simp add: UpdateGame_game_over_def assms)
  show ?thesis
    unfolding tick UpdateGame_ball_def m w p a s o by simp
qed

lemma run_frames_flying:
  assumes "state g = STATE_PLAYING" "mode g = MODE_MULTIPLAYER"
    and "playerPaddle g =
      \<lparr> rect = \<lparr> rec_x = 10, rec_y = 300, rec_width = 25, rec_height = 200 \<rparr>,
        speed = 12, paddle_color = COLOR_PLAYER_ONE \<rparr>"
    and "aiPaddle g =
      \<lparr> rect = \<lparr> rec_x = 1245, rec_y = 300, rec_width = 25, rec_height = 200 \<rparr>,
        speed = 12, paddle_color = COLOR_PLAYER_TWO \<rparr>"
    and "ball g = ball_at x 400 16 0" "640 \<le> x" "x + 16 * real n < 1205"
    and "playerScore g = 0" "aiScore g = 0" "winScore g = 10"
  shows "run_frames (replicate n idle_input) g =
           Inr (g\<lparr> ball := ball_at (x + 16 * real n) 400 16 0 \<rparr>)"
  using assms
proof (induction n arbitrary: g x)
  case 0
  then show ?case by simp
next
  case (Suc n)
  let ?g1 = "g\<lparr> ball := ball_at (x + 16) 400 16 0 \<rparr>"
  from Suc.prems have lt: "x + 16 < 1205" by simp
  have step: "UpdateGame idle_input g = Inr ?g1"
    by (rule UpdateGame_flying[OF Suc.prems(1-6) lt Suc.prems(8-10)])
  have "run_frames (replicate n idle_input) ?g1 =
          Inr (?g1\<lparr> ball := ball_at (x + 16 + 16 * real n) 400 16 0 \<rparr>)"
    using Suc.prems by (intro Suc.IH) simp_all
  then show ?case
    by (simp add: step algebra_simps)
qed

text \<open>
  From the match started while the slider is dragged, 35 idle frames bring the ball to
  the place it has in \<open>overspeed_game\<close>, with the same speed 16, multiplier 0.5, paddles,
  mode and phase; the next frame is the one in which the hit lowers the speed to 7.5.
\<close>

lemma overspeed_reached:
  "\<exists>g. run_frames (replicate 35 idle_input) started_while_dragging = Inr g \<and>
       ball g = ball overspeed_game \<and>
       ballSpeedMultiplier g = ballSpeedMultiplier overspeed_game \<and>
       playerPaddle g = playerPaddle overspeed_game \<and> aiPaddle g = aiPaddle overspeed_game \<and>
       state g = state overspeed_game \<and> mode g = mode overspeed_game \<and>
       playerScore g = playerScore overspeed_game \<and> aiScore g = aiScore overspeed_game \<and>
       winScore g = winScore overspeed_game"
proof -
  note k = UpdateModeSelect_key_and_drag
  have "run_frames (replicate 35 idle_input) started_while_dragging =
          Inr (started_while_dragging\<lparr> ball := ball_at (640 + 16 * real 35) 400 16 0 \<rparr>)"
    using k by (intro run_frames_flying) simp_all
  then have "run_frames (replicate 35 idle_input) started_while_dragging =
          Inr (started_while_dragging\<lparr> ball := ball_at 1200 400 16 0 \<rparr>)"
    by simp
  then show ?thesis
    using k by (simp add: overspeed_game_def fresh_match_def InitGame_fields)
qed

end
